theory Spec2Isabelle
  imports Main "HOL-Library.Word" "HOL-Library.Multiset"
begin

section \<open>The C library as the two tools use it\<close>

text \<open>
  \<^verbatim>\<open>mqtt_pub.c\<close> and \<^verbatim>\<open>mqtt_sub.c\<close> are two separate programs with
  the same shape. A \<^verbatim>\<open>char *\<close> is modelled as a \<open>string option\<close> (\<open>None\<close> is the
  NULL pointer), a C \<^verbatim>\<open>int\<close> as an \<open>int\<close>. Passing NULL to \<^verbatim>\<open>strdup\<close> or
  \<^verbatim>\<open>atoi\<close> is undefined behaviour in C (glibc reads through the pointer and the
  process dies with a segmentation fault); the model makes it the error value
  \<open>Null_Pointer\<close>. \<^verbatim>\<open>free\<close> has no counterpart: memory is not modelled, and
  \<^verbatim>\<open>strdup\<close> is taken never to run out of memory.
\<close>

datatype error = Null_Pointer

definition strdup :: "string option \<Rightarrow> error + string option" where
  "strdup s = (case s of None \<Rightarrow> Inl Null_Pointer | Some v \<Rightarrow> Inr (Some v))"

definition strlen :: "string option \<Rightarrow> error + nat" where
  "strlen s = (case s of None \<Rightarrow> Inl Null_Pointer | Some v \<Rightarrow> Inr (length v))"

subsection \<open>atoi\<close>

text \<open>
  glibc's \<^verbatim>\<open>atoi (s)\<close> is \<^verbatim>\<open>(int) strtol (s, NULL, 10)\<close>: leading white space is
  skipped, an optional sign is read, then decimal digits up to the first character that
  is not one; \<^verbatim>\<open>strtol\<close> saturates at the bounds of a 64-bit \<^verbatim>\<open>long\<close> and the cast
  keeps the low 32 bits. A string with no digits gives 0.
\<close>

definition isspace :: "char \<Rightarrow> bool" where
  "isspace c = (c \<in> set [CHR '' '', CHR 0x09, CHR 0x0A, CHR 0x0B, CHR 0x0C, CHR 0x0D])"

definition isdigit :: "char \<Rightarrow> bool" where
  "isdigit c = (48 \<le> (of_char c :: nat) \<and> (of_char c :: nat) \<le> 57)"

fun digits_value :: "int \<Rightarrow> string \<Rightarrow> int" where
  "digits_value acc [] = acc"
| "digits_value acc (c # cs) =
     (if isdigit c then digits_value (10 * acc + (of_char c - 48)) cs else acc)"

definition strtol10 :: "string \<Rightarrow> int" where
  "strtol10 s =
     (let s1 = dropWhile isspace s;
          v = (case s1 of
                 [] \<Rightarrow> 0
               | c # cs \<Rightarrow>
                   if c = CHR ''-'' then - digits_value 0 cs
                   else if c = CHR ''+'' then digits_value 0 cs
                   else digits_value 0 s1)
      in max (- (2 ^ 63)) (min (2 ^ 63 - 1) v))"

definition atoi :: "string option \<Rightarrow> error + int" where
  "atoi s = (case s of None \<Rightarrow> Inl Null_Pointer
             | Some v \<Rightarrow> Inr (sint (word_of_int (strtol10 v) :: 32 word)))"

subsection \<open>getopt_long\<close>

text \<open>
  A model of glibc's \<^verbatim>\<open>getopt_long\<close> for an option string without a leading
  \<^verbatim>\<open>+\<close>, \<^verbatim>\<open>-\<close> or \<^verbatim>\<open>:\<close> and without \<^verbatim>\<open>W;\<close>, which is what both tools pass
  (\<^verbatim>\<open>"i:h:p:u:P:rt:m:H"\<close>). The scanning state \<^verbatim>\<open>(optind, nextchar)\<close> is kept as
  the pair of the characters still to be read in the current cluster of short options
  and the elements of \<^verbatim>\<open>argv\<close> after it. With the default ordering glibc moves the
  non-options it skips behind the options; neither tool reads \<^verbatim>\<open>argv\<close> or
  \<^verbatim>\<open>optind\<close> after parsing, so the model only skips them. The ordering is
  \<^verbatim>\<open>REQUIRE_ORDER\<close> (stop at the first non-option) when the environment variable
  \<^verbatim>\<open>POSIXLY_CORRECT\<close> is set, which is the parameter \<open>posixly_correct\<close>.

  A call returns the option character (\<open>Opt c\<close>; \<open>Opt CHR ''?''\<close> reports an error) or
  -1 (\<open>End\<close>), together with \<^verbatim>\<open>optarg\<close>, which glibc resets to NULL at the start of
  every call.
\<close>

datatype has_arg = no_argument | required_argument | optional_argument

datatype long_option = Long_option (lo_name: string) (lo_has_arg: has_arg) (lo_val: char)

datatype opt = End | Opt char

type_synonym getopt_data = "string \<times> string list"

type_synonym getopt_ret = "(opt \<times> string option) \<times> getopt_data"

definition nonoption_p :: "string \<Rightarrow> bool" where
  "nonoption_p a = (case a of [] \<Rightarrow> True | c # cs \<Rightarrow> c \<noteq> CHR ''-'' \<or> cs = [])"

definition strchr :: "string \<Rightarrow> char \<Rightarrow> string option" where
  "strchr s c = (case dropWhile (\<lambda>x. x \<noteq> c) s of [] \<Rightarrow> None | t \<Rightarrow> Some t)"

definition short_option :: "string \<Rightarrow> char \<Rightarrow> string \<Rightarrow> string list \<Rightarrow> getopt_ret" where
  "short_option optstring c cs rest =
     (case strchr optstring c of
        None \<Rightarrow> ((Opt CHR ''?'', None), (cs, rest))
      | Some temp \<Rightarrow>
          if c = CHR '':'' \<or> c = CHR '';'' then ((Opt CHR ''?'', None), (cs, rest))
          else if take 1 (drop 1 temp) = '':'' then
            (if take 1 (drop 2 temp) = '':'' then
               ((Opt c, if cs = [] then None else Some cs), ([], rest))
             else if cs \<noteq> [] then ((Opt c, Some cs), ([], rest))
             else (case rest of
                     [] \<Rightarrow> ((Opt CHR ''?'', None), ([], []))
                   | a # as \<Rightarrow> ((Opt c, Some a), ([], as))))
          else ((Opt c, None), (cs, rest)))"

text \<open>
  \<^verbatim>\<open>process_long_option\<close>: the name runs up to the first \<^verbatim>\<open>=\<close>. An exact match wins;
  otherwise the name may abbreviate exactly one entry of the table (two entries that
  differ in \<^verbatim>\<open>has_arg\<close> or \<^verbatim>\<open>val\<close> make it ambiguous). The \<^verbatim>\<open>flag\<close> pointer of an
  entry is 0 in every entry of both tools and is left out.
\<close>

definition long_matches :: "long_option list \<Rightarrow> string \<Rightarrow> long_option list" where
  "long_matches longopts nm =
     (case filter (\<lambda>p. lo_name p = nm) longopts of
        p # ps \<Rightarrow> [p]
      | [] \<Rightarrow> filter (\<lambda>p. take (length nm) (lo_name p) = nm) longopts)"

definition process_long_option :: "long_option list \<Rightarrow> string \<Rightarrow> string list \<Rightarrow> getopt_ret" where
  "process_long_option longopts arg rest =
     (let nm = takeWhile (\<lambda>c. c \<noteq> CHR ''='') arg;
          nameend = dropWhile (\<lambda>c. c \<noteq> CHR ''='') arg
      in case long_matches longopts nm of
           [] \<Rightarrow> ((Opt CHR ''?'', None), ([], rest))
         | p # ps \<Rightarrow>
             if list_ex (\<lambda>q. lo_has_arg q \<noteq> lo_has_arg p \<or> lo_val q \<noteq> lo_val p) ps
             then ((Opt CHR ''?'', None), ([], rest))
             else if nameend \<noteq> [] then
               (if lo_has_arg p \<noteq> no_argument
                then ((Opt (lo_val p), Some (drop 1 nameend)), ([], rest))
                else ((Opt CHR ''?'', None), ([], rest)))
             else if lo_has_arg p = required_argument then
               (case rest of
                  [] \<Rightarrow> ((Opt CHR ''?'', None), ([], []))
                | a # as \<Rightarrow> ((Opt (lo_val p), Some a), ([], as)))
             else ((Opt (lo_val p), None), ([], rest)))"

definition getopt_long :: "bool \<Rightarrow> string \<Rightarrow> long_option list \<Rightarrow> getopt_data \<Rightarrow> getopt_ret" where
  "getopt_long posixly_correct optstring longopts d =
     (case d of
        (c # cs, rest) \<Rightarrow> short_option optstring c cs rest
      | ([], rest) \<Rightarrow>
          (let rest1 = (if posixly_correct then rest else dropWhile nonoption_p rest)
           in case rest1 of
                [] \<Rightarrow> ((End, None), ([], []))
              | a # as \<Rightarrow>
                  if a = ''--'' then ((End, None), ([], []))
                  else if nonoption_p a then ((End, None), ([], rest1))
                  else (case a of
                          x # c # cs \<Rightarrow>
                            if c = CHR ''-'' then process_long_option longopts cs as
                            else short_option optstring c cs as
                        | _ \<Rightarrow> ((End, None), ([], rest1)))))"

text \<open>
  Every call that returns an option consumes input: the measure of the termination
  proofs of the parsing loops.
\<close>

definition getopt_size :: "getopt_data \<Rightarrow> nat" where
  "getopt_size d = length (fst d) + sum_list (map (\<lambda>a. Suc (length a)) (snd d))"

text \<open>The results of calling \<^verbatim>\<open>getopt_long\<close> until it returns -1.\<close>

function getopt_seq :: "bool \<Rightarrow> string \<Rightarrow> long_option list \<Rightarrow> getopt_data \<Rightarrow> (char \<times> string option) list" where
  "getopt_seq pc optstring longopts d =
     (case getopt_long pc optstring longopts d of
        ((End, optarg), d') \<Rightarrow> []
      | ((Opt c, optarg), d') \<Rightarrow> (c, optarg) # getopt_seq pc optstring longopts d')"
  by pat_completeness auto

lemma sum_list_dropWhile_le:
  "sum_list (map f (dropWhile P xs)) \<le> (sum_list (map f xs) :: nat)"
  by (induction xs) auto

lemma short_option_size:
  "short_option optstring c cs rest = ((Opt x, optarg), d') \<Longrightarrow>
   getopt_size d' \<le> length cs + sum_list (map (\<lambda>a. Suc (length a)) rest)"
  by (auto simp: short_option_def getopt_size_def
      split: option.splits if_splits list.splits)

lemma process_long_option_size:
  "process_long_option longopts arg rest = ((Opt x, optarg), d') \<Longrightarrow>
   getopt_size d' \<le> sum_list (map (\<lambda>a. Suc (length a)) rest)"
  by (auto simp: process_long_option_def getopt_size_def Let_def
      split: option.splits if_splits list.splits)

lemma getopt_long_size:
  assumes "getopt_long pc optstring longopts d = ((Opt x, optarg), d')"
  shows "getopt_size d' < getopt_size d"
proof (cases d)
  case (Pair nextchar rest)
  show ?thesis
  proof (cases nextchar)
    case (Cons c cs)
    with Pair assms have "short_option optstring c cs rest = ((Opt x, optarg), d')"
      by (simp add: getopt_long_def)
    from short_option_size [OF this] Pair Cons show ?thesis
      by (simp add: getopt_size_def)
  next
    case Nil
    define rest1 where "rest1 = (if pc then rest else dropWhile nonoption_p rest)"
    have le: "sum_list (map (\<lambda>a. Suc (length a)) rest1)
              \<le> sum_list (map (\<lambda>a. Suc (length a)) rest)"
      by (simp add: rest1_def sum_list_dropWhile_le)
    from assms Pair Nil obtain a as y c cs where
      rest1: "rest1 = a # as" and a: "a = y # c # cs" and
      r: "(if c = CHR ''-'' then process_long_option longopts cs as
           else short_option optstring c cs as) = ((Opt x, optarg), d')"
      by (auto simp: getopt_long_def Let_def rest1_def [symmetric]
          split: list.splits if_splits)
    have "getopt_size d' \<le> length cs + sum_list (map (\<lambda>a. Suc (length a)) as)"
    proof (cases "c = CHR ''-''")
      case True
      with r process_long_option_size [of longopts cs as x optarg d'] show ?thesis
        by simp
    next
      case False
      with r short_option_size [of optstring c cs as x optarg d'] show ?thesis
        by simp
    qed
    with le rest1 a Pair Nil show ?thesis
      by (simp add: getopt_size_def)
  qed
qed

termination getopt_seq
  by (relation "measure (\<lambda>(pc, optstring, longopts, d). getopt_size d)")
     (auto dest: getopt_long_size [OF sym])

section \<open>Output and the MQTT client library\<close>

text \<open>
  What a run does to the outside is recorded in an \<open>io\<close> value: the calls made to
  libmosquitto, in order and with their arguments, and the lines written to standard
  output and to the error stream (every \<^verbatim>\<open>printf\<close> of the two tools ends its text
  with a newline; a line is stored without it). The handle \<^verbatim>\<open>mosq\<close> and the NULL
  arguments for \<^verbatim>\<open>mid\<close> and the user object are not recorded.
\<close>

datatype mosq_call =
    Mosquitto_lib_init
  | Mosquitto_new "string option" bool
  | Mosquitto_username_pw_set "string option" "string option"
  | Mosquitto_message_callback_set
  | Mosquitto_connect "string option" int int
  | Mosquitto_publish "string option" int "string option" int bool
  | Mosquitto_subscribe "string option" int
  | Mosquitto_loop int int
  | Mosquitto_unsubscribe "string option"
  | Mosquitto_destroy
  | Mosquitto_lib_cleanup

record io =
  calls :: "mosq_call list"
  stdout :: "string list"
  stderr :: "string list"

definition io0 :: io where
  "io0 = \<lparr>calls = [], stdout = [], stderr = []\<rparr>"

definition call :: "mosq_call \<Rightarrow> io \<Rightarrow> io" where
  "call c io = io\<lparr>calls := calls io @ [c]\<rparr>"

definition print_out :: "string list \<Rightarrow> io \<Rightarrow> io" where
  "print_out ls io = io\<lparr>stdout := stdout io @ ls\<rparr>"

definition print_err :: "string \<Rightarrow> io \<Rightarrow> io" where
  "print_err l io = io\<lparr>stderr := stderr io @ [l]\<rparr>"

text \<open>
  libmosquitto is a collaborator outside the repository. What it answers is a parameter
  of every run: the return code of each call, whether \<^verbatim>\<open>mosquitto_new\<close> returns a
  handle, and for the subscriber's receive loop the return code of the \<open>i\<close>-th call of
  \<^verbatim>\<open>mosquitto_loop\<close>, the messages that call hands to the message callback, the value
  of \<^verbatim>\<open>g_shutdown_requested\<close> (set by the signal handler) at the \<open>i\<close>-th test of the
  loop condition, and \<^verbatim>\<open>errno\<close> after the loop with the text \<^verbatim>\<open>strerror\<close> gives it.
\<close>

record mosquitto_message =
  mid :: int
  topic :: string
  payload :: string
  payloadlen :: int
  retain :: bool

record mosq_env =
  lib_init_rc :: int
  new_ok :: bool
  username_pw_set_rc :: int
  connect_rc :: int
  publish_rc :: int
  subscribe_rc :: int
  loop_rc :: "nat \<Rightarrow> int"
  loop_messages :: "nat \<Rightarrow> mosquitto_message list"
  shutdown_requested :: "nat \<Rightarrow> bool"
  errno_after_loop :: int
  strerror :: "int \<Rightarrow> string"
  unsubscribe_rc :: int

definition MOSQ_ERR_SUCCESS :: int where "MOSQ_ERR_SUCCESS = 0"

definition EXIT_SUCCESS :: int where "EXIT_SUCCESS = 0"

definition EXIT_FAILURE :: int where "EXIT_FAILURE = 1"

definition EINTR :: int where "EINTR = 4"

definition MQTT_DEFAULT_PORT :: int where "MQTT_DEFAULT_PORT = 1883"

definition MQTT_KEEPALIVE :: int where "MQTT_KEEPALIVE = 60 * 1000"

definition MQTT_QOS :: int where "MQTT_QOS = 0"

definition LOOP_INTERVAL :: int where "LOOP_INTERVAL = 1000"

definition optstring :: string where
  "optstring = ''i:h:p:u:P:rt:m:H''"

section \<open>The publisher, mqtt\_pub.c\<close>

datatype pub_command = COMMAND_PUB | PUB_COMMAND_SHOW_HELP

record pub_context =
  pub_id :: "string option"
  pub_user :: "string option"
  pub_password :: "string option"
  pub_host :: "string option"
  pub_port :: int
  pub_topic :: "string option"
  pub_message :: "string option"
  pub_retain :: bool
  pub_cmd :: pub_command
  pub_exit_code :: int

definition pub_usage :: "string list" where
  "pub_usage =
    [''mqtt_pub, (c) 2024 Falk Werner <github.com/falk-werner>'',
     ''Publish message to MQTT topic'',
     [],
     ''Usage:'',
     ''    mqtt_pub [-h host] [-p port] [-u user] [-P password]'',
     ''             [-i client-id] [-r]'',
     ''             -t topic -m message'',
     [],
     ''Options:'',
     ''    -h, --host     : hostname of MQTT broker (default: localhost)'',
     ''    -p, --port     : port of MQTT broker (default: 1883)'',
     ''    -u, --user     : name of the MQTT user (default: <unset>)'',
     ''    -p, --password : password of the MQTT user (default: <unset>)'',
     ''    -i, --client-id: MQTT client id (default: <unset>)'',
     ''    -r, --retain   : retain message (default: message is not retained)'',
     ''    -t, --topic    : MQTT topic to publish (required)'',
     ''    -m, --message  : message to public (required)'',
     [],
     ''Example:'',
     ''    mqtt_pub -t test -m hello'']"

definition pub_print_usage :: "io \<Rightarrow> io" where
  "pub_print_usage io = print_out pub_usage io"

definition pub_long_opts :: "long_option list" where
  "pub_long_opts =
    [Long_option ''client-id'' no_argument CHR ''i'',
     Long_option ''host'' no_argument CHR ''h'',
     Long_option ''port'' no_argument CHR ''p'',
     Long_option ''user'' no_argument CHR ''u'',
     Long_option ''password'' no_argument CHR ''P'',
     Long_option ''retain'' no_argument CHR ''r'',
     Long_option ''topic'' no_argument CHR ''t'',
     Long_option ''message'' no_argument CHR ''m'',
     Long_option ''help'' no_argument CHR ''H'']"

text \<open>
  The \<^verbatim>\<open>switch\<close> in the loop of \<^verbatim>\<open>context_init\<close>: the updated context and output,
  and the value of \<^verbatim>\<open>done\<close> after it.
\<close>

definition pub_switch :: "pub_context \<Rightarrow> io \<Rightarrow> opt \<Rightarrow> string option \<Rightarrow> error + (pub_context \<times> io \<times> bool)" where
  "pub_switch ctx io c optarg =
     (case c of
        End \<Rightarrow> Inr (ctx, io, True)
      | Opt x \<Rightarrow>
          if x = CHR ''i'' then
            (case strdup optarg of Inl e \<Rightarrow> Inl e
             | Inr s \<Rightarrow> Inr (ctx\<lparr>pub_id := s\<rparr>, io, False))
          else if x = CHR ''h'' then
            (case strdup optarg of Inl e \<Rightarrow> Inl e
             | Inr s \<Rightarrow> Inr (ctx\<lparr>pub_host := s\<rparr>, io, False))
          else if x = CHR ''p'' then
            (case atoi optarg of Inl e \<Rightarrow> Inl e
             | Inr n \<Rightarrow> Inr (ctx\<lparr>pub_port := n\<rparr>, io, False))
          else if x = CHR ''u'' then
            (case strdup optarg of Inl e \<Rightarrow> Inl e
             | Inr s \<Rightarrow> Inr (ctx\<lparr>pub_user := s\<rparr>, io, False))
          else if x = CHR ''P'' then
            (case strdup optarg of Inl e \<Rightarrow> Inl e
             | Inr s \<Rightarrow> Inr (ctx\<lparr>pub_password := s\<rparr>, io, False))
          else if x = CHR ''r'' then Inr (ctx\<lparr>pub_retain := True\<rparr>, io, False)
          else if x = CHR ''t'' then
            (case strdup optarg of Inl e \<Rightarrow> Inl e
             | Inr s \<Rightarrow> Inr (ctx\<lparr>pub_topic := s\<rparr>, io, False))
          else if x = CHR ''m'' then
            (case strdup optarg of Inl e \<Rightarrow> Inl e
             | Inr s \<Rightarrow> Inr (ctx\<lparr>pub_message := s\<rparr>, io, False))
          else if x = CHR ''H'' then
            Inr (ctx\<lparr>pub_cmd := PUB_COMMAND_SHOW_HELP\<rparr>, io, True)
          else
            Inr (ctx\<lparr>pub_exit_code := EXIT_FAILURE, pub_cmd := PUB_COMMAND_SHOW_HELP\<rparr>,
                 print_err ''error: unknown option'' io, True))"

function pub_parse_loop :: "bool \<Rightarrow> pub_context \<Rightarrow> io \<Rightarrow> getopt_data \<Rightarrow> error + (pub_context \<times> io)" where
  "pub_parse_loop pc ctx io d =
     (case getopt_long pc optstring pub_long_opts d of
        ((c, optarg), d') \<Rightarrow>
          (case pub_switch ctx io c optarg of
             Inl e \<Rightarrow> Inl e
           | Inr (ctx', io', done) \<Rightarrow>
               if done then Inr (ctx', io') else pub_parse_loop pc ctx' io' d'))"
  by pat_completeness auto

lemma pub_switch_not_done:
  "pub_switch ctx io c optarg = Inr (ctx', io', False) \<Longrightarrow> \<exists>x. c = Opt x"
  by (cases c) (auto simp: pub_switch_def)

termination pub_parse_loop
  by (relation "measure (\<lambda>(pc, ctx, io, d). getopt_size d)")
     (auto dest!: pub_switch_not_done dest: getopt_long_size [OF sym])

definition pub_context_init :: "bool \<Rightarrow> string list \<Rightarrow> io \<Rightarrow> error + (pub_context \<times> io)" where
  "pub_context_init pc argv io =
     (case pub_parse_loop pc
             \<lparr>pub_id = None, pub_user = None, pub_password = None,
              pub_host = Some ''localhost'', pub_port = MQTT_DEFAULT_PORT,
              pub_topic = None, pub_message = None, pub_retain = False,
              pub_cmd = COMMAND_PUB, pub_exit_code = EXIT_SUCCESS\<rparr>
             io ([], drop 1 argv) of
        Inl e \<Rightarrow> Inl e
      | Inr (ctx, io') \<Rightarrow>
          if pub_cmd ctx = COMMAND_PUB \<and> (pub_topic ctx = None \<or> pub_message ctx = None)
          then Inr (ctx\<lparr>pub_exit_code := EXIT_FAILURE, pub_cmd := PUB_COMMAND_SHOW_HELP\<rparr>,
                    print_err ''error: topic or message not specified'' io')
          else Inr (ctx, io'))"

definition pub_context_cleanup :: "pub_context \<Rightarrow> int" where
  "pub_context_cleanup ctx = pub_exit_code ctx"

definition mqtt_pub :: "mosq_env \<Rightarrow> pub_context \<Rightarrow> io \<Rightarrow> error + (pub_context \<times> io)" where
  "mqtt_pub env ctx io =
     (let io1 = call Mosquitto_lib_init io in
      if MOSQ_ERR_SUCCESS \<noteq> lib_init_rc env then
        Inr (ctx\<lparr>pub_exit_code := EXIT_FAILURE\<rparr>,
             print_err ''error: failed to init mosquitto library'' io1)
      else
      let io2 = call (Mosquitto_new (pub_id ctx) True) io1 in
      if \<not> new_ok env then
        Inr (ctx\<lparr>pub_exit_code := EXIT_FAILURE\<rparr>,
             call Mosquitto_lib_cleanup
               (print_err ''error: failed to create mosquitto instance'' io2))
      else
      let io3 = call (Mosquitto_username_pw_set (pub_user ctx) (pub_password ctx)) io2 in
      if MOSQ_ERR_SUCCESS \<noteq> username_pw_set_rc env then
        Inr (ctx\<lparr>pub_exit_code := EXIT_FAILURE\<rparr>,
             call Mosquitto_lib_cleanup (call Mosquitto_destroy
               (print_err ''error: failed to set user and password'' io3)))
      else
      let io4 = call (Mosquitto_connect (pub_host ctx) (pub_port ctx) MQTT_KEEPALIVE) io3 in
      if MOSQ_ERR_SUCCESS \<noteq> connect_rc env then
        Inr (ctx\<lparr>pub_exit_code := EXIT_FAILURE\<rparr>,
             call Mosquitto_lib_cleanup (call Mosquitto_destroy
               (print_err ''error: failed to connect to MQTT broker'' io4)))
      else
      (case strlen (pub_message ctx) of
         Inl e \<Rightarrow> Inl e
       | Inr n \<Rightarrow>
           let message_length = sint (word_of_nat n :: 32 word);
               io5 = call (Mosquitto_publish (pub_topic ctx) message_length
                             (pub_message ctx) MQTT_QOS (pub_retain ctx)) io4
           in if MOSQ_ERR_SUCCESS \<noteq> publish_rc env then
                Inr (ctx\<lparr>pub_exit_code := EXIT_FAILURE\<rparr>,
                     call Mosquitto_lib_cleanup (call Mosquitto_destroy
                       (print_err ''error: failed to publish message'' io5)))
              else Inr (ctx, call Mosquitto_lib_cleanup (call Mosquitto_destroy io5))))"

text \<open>\<^verbatim>\<open>main\<close>: the exit status of the process and what the run did.\<close>

definition pub_main :: "bool \<Rightarrow> mosq_env \<Rightarrow> string list \<Rightarrow> error + (int \<times> io)" where
  "pub_main pc env argv =
     (case pub_context_init pc argv io0 of
        Inl e \<Rightarrow> Inl e
      | Inr (ctx, io) \<Rightarrow>
          (case (case pub_cmd ctx of
                   COMMAND_PUB \<Rightarrow> mqtt_pub env ctx io
                 | PUB_COMMAND_SHOW_HELP \<Rightarrow> Inr (ctx, pub_print_usage io)) of
             Inl e \<Rightarrow> Inl e
           | Inr (ctx', io') \<Rightarrow> Inr (pub_context_cleanup ctx', io')))"

section \<open>The subscriber, mqtt\_sub.c\<close>

datatype sub_command = COMMAND_SUB | SUB_COMMAND_SHOW_HELP

record sub_context =
  sub_id :: "string option"
  sub_user :: "string option"
  sub_password :: "string option"
  sub_host :: "string option"
  sub_port :: int
  sub_topic :: "string option"
  sub_retain :: bool
  sub_cmd :: sub_command
  sub_exit_code :: int

definition sub_usage :: "string list" where
  "sub_usage =
    [''mqtt_sub, (c) 2024 Falk Werner <github.com/falk-werner>'',
     ''Subscribe to a MQTT topic'',
     [],
     ''Usage:'',
     ''    mqtt_sub [-h host] [-p port] [-u user] [-P password]'',
     ''             [-i client-id] [-r] -t topic'',
     [],
     ''Options:'',
     ''    -h, --host     : hostname of MQTT broker (default: localhost)'',
     ''    -p, --port     : port of MQTT broker (default: 1883)'',
     ''    -u, --user     : name of the MQTT user (default: <unset>)'',
     ''    -p, --password : password of the MQTT user (default: <unset>)'',
     ''    -i, --client-id: MQTT client id (default: <unset>)'',
     ''    -r, --retain   : retain message (default: message is not retained)'',
     ''    -t, --topic    : MQTT topic to publish (required)'',
     [],
     ''Example:'',
     ''    mqtt_sub -t test'']"

definition sub_print_usage :: "io \<Rightarrow> io" where
  "sub_print_usage io = print_out sub_usage io"

definition sub_long_opts :: "long_option list" where
  "sub_long_opts =
    [Long_option ''client-id'' no_argument CHR ''i'',
     Long_option ''host'' no_argument CHR ''h'',
     Long_option ''port'' no_argument CHR ''p'',
     Long_option ''user'' no_argument CHR ''u'',
     Long_option ''password'' no_argument CHR ''P'',
     Long_option ''retain'' no_argument CHR ''r'',
     Long_option ''topic'' no_argument CHR ''t'',
     Long_option ''help'' no_argument CHR ''H'']"

text \<open>
  The subscriber passes the publisher's option string, so \<^verbatim>\<open>getopt_long\<close> accepts
  \<^verbatim>\<open>-m\<close> with an argument, but the \<^verbatim>\<open>switch\<close> has no case for it.
\<close>

definition sub_switch :: "sub_context \<Rightarrow> io \<Rightarrow> opt \<Rightarrow> string option \<Rightarrow> error + (sub_context \<times> io \<times> bool)" where
  "sub_switch ctx io c optarg =
     (case c of
        End \<Rightarrow> Inr (ctx, io, True)
      | Opt x \<Rightarrow>
          if x = CHR ''i'' then
            (case strdup optarg of Inl e \<Rightarrow> Inl e
             | Inr s \<Rightarrow> Inr (ctx\<lparr>sub_id := s\<rparr>, io, False))
          else if x = CHR ''h'' then
            (case strdup optarg of Inl e \<Rightarrow> Inl e
             | Inr s \<Rightarrow> Inr (ctx\<lparr>sub_host := s\<rparr>, io, False))
          else if x = CHR ''p'' then
            (case atoi optarg of Inl e \<Rightarrow> Inl e
             | Inr n \<Rightarrow> Inr (ctx\<lparr>sub_port := n\<rparr>, io, False))
          else if x = CHR ''u'' then
            (case strdup optarg of Inl e \<Rightarrow> Inl e
             | Inr s \<Rightarrow> Inr (ctx\<lparr>sub_user := s\<rparr>, io, False))
          else if x = CHR ''P'' then
            (case strdup optarg of Inl e \<Rightarrow> Inl e
             | Inr s \<Rightarrow> Inr (ctx\<lparr>sub_password := s\<rparr>, io, False))
          else if x = CHR ''r'' then Inr (ctx\<lparr>sub_retain := True\<rparr>, io, False)
          else if x = CHR ''t'' then
            (case strdup optarg of Inl e \<Rightarrow> Inl e
             | Inr s \<Rightarrow> Inr (ctx\<lparr>sub_topic := s\<rparr>, io, False))
          else if x = CHR ''H'' then
            Inr (ctx\<lparr>sub_cmd := SUB_COMMAND_SHOW_HELP\<rparr>, io, True)
          else
            Inr (ctx\<lparr>sub_exit_code := EXIT_FAILURE, sub_cmd := SUB_COMMAND_SHOW_HELP\<rparr>,
                 print_err ''error: unknown option'' io, True))"

function sub_parse_loop :: "bool \<Rightarrow> sub_context \<Rightarrow> io \<Rightarrow> getopt_data \<Rightarrow> error + (sub_context \<times> io)" where
  "sub_parse_loop pc ctx io d =
     (case getopt_long pc optstring sub_long_opts d of
        ((c, optarg), d') \<Rightarrow>
          (case sub_switch ctx io c optarg of
             Inl e \<Rightarrow> Inl e
           | Inr (ctx', io', done) \<Rightarrow>
               if done then Inr (ctx', io') else sub_parse_loop pc ctx' io' d'))"
  by pat_completeness auto

lemma sub_switch_not_done:
  "sub_switch ctx io c optarg = Inr (ctx', io', False) \<Longrightarrow> \<exists>x. c = Opt x"
  by (cases c) (auto simp: sub_switch_def)

termination sub_parse_loop
  by (relation "measure (\<lambda>(pc, ctx, io, d). getopt_size d)")
     (auto dest!: sub_switch_not_done dest: getopt_long_size [OF sym])

definition sub_context_init :: "bool \<Rightarrow> string list \<Rightarrow> io \<Rightarrow> error + (sub_context \<times> io)" where
  "sub_context_init pc argv io =
     (case sub_parse_loop pc
             \<lparr>sub_id = None, sub_user = None, sub_password = None,
              sub_host = Some ''localhost'', sub_port = MQTT_DEFAULT_PORT,
              sub_topic = None, sub_retain = False,
              sub_cmd = COMMAND_SUB, sub_exit_code = EXIT_SUCCESS\<rparr>
             io ([], drop 1 argv) of
        Inl e \<Rightarrow> Inl e
      | Inr (ctx, io') \<Rightarrow>
          if sub_cmd ctx = COMMAND_SUB \<and> sub_topic ctx = None
          then Inr (ctx\<lparr>sub_exit_code := EXIT_FAILURE, sub_cmd := SUB_COMMAND_SHOW_HELP\<rparr>,
                    print_err ''error: missing topic'' io')
          else Inr (ctx, io'))"

definition sub_context_cleanup :: "sub_context \<Rightarrow> int" where
  "sub_context_cleanup ctx = sub_exit_code ctx"

subsection \<open>The message callback\<close>

text \<open>
  \<^verbatim>\<open>printf\<close>'s \<^verbatim>\<open>%d\<close> writes an \<^verbatim>\<open>int\<close> in decimal. \<^verbatim>\<open>%.*s\<close> with precision
  \<open>n\<close> writes the bytes of its argument up to the first NUL byte, and at most \<open>n\<close> of
  them. The payload is the byte buffer libmosquitto hands over; it keeps a NUL byte
  behind the last payload byte, which is where a read past the end of the list stops.
\<close>

fun decimal :: "nat \<Rightarrow> string" where
  "decimal n =
     (if n < 10 then [char_of (48 + n)]
      else decimal (n div 10) @ [char_of (48 + n mod 10)])"

definition printf_d :: "int \<Rightarrow> string" where
  "printf_d i = (if i < 0 then CHR ''-'' # decimal (nat (- i)) else decimal (nat i))"

definition printf_prec_s :: "int \<Rightarrow> string \<Rightarrow> string" where
  "printf_prec_s n s = takeWhile (\<lambda>c. c \<noteq> CHR 0x00) (take (nat n) s)"

definition mqtt_on_message :: "mosquitto_message \<Rightarrow> io \<Rightarrow> io" where
  "mqtt_on_message message io =
     (let io1 = print_out [''message id: '' @ printf_d (mid message)] io;
          io2 = print_out [''topic     : '' @ topic message] io1;
          io3 = print_out [''retained  : '' @ (if retain message then ''yes'' else ''no'')] io2;
          io4 = (if 0 < payloadlen message
                 then print_out [''payload   : '' @
                                   printf_prec_s (payloadlen message) (payload message)] io3
                 else print_out [''payload   : <empty>''] io3)
      in print_out [[]] io4)"

subsection \<open>The session\<close>

text \<open>
  The receive loop of \<^verbatim>\<open>mqtt_sub\<close>. It may run forever (no error and no shutdown
  request); then the function has no value.
\<close>

partial_function (option) sub_receive_loop :: "mosq_env \<Rightarrow> nat \<Rightarrow> int \<Rightarrow> io \<Rightarrow> (int \<times> io) option" where
  "sub_receive_loop env i rc io =
     (if rc = MOSQ_ERR_SUCCESS \<and> \<not> shutdown_requested env i
      then sub_receive_loop env (Suc i) (loop_rc env i)
             (fold mqtt_on_message (loop_messages env i)
                (call (Mosquitto_loop LOOP_INTERVAL 1) io))
      else Some (rc, io))"

declare sub_receive_loop.simps [code]

text \<open>
  \<^verbatim>\<open>mqtt_sub\<close> up to the end of the receive loop and the test that follows it (lines
  186 to 247): \<open>Inl\<close> when a step before the loop failed and the function has returned,
  \<open>Inr\<close> when the loop has ended and the unsubscribe step is next. Installing the
  handlers for \<^verbatim>\<open>SIGINT\<close> and \<^verbatim>\<open>SIGTERM\<close> has no counterpart of its own: what
  the handler does is the parameter \<open>shutdown_requested\<close>.
\<close>

definition sub_session :: "mosq_env \<Rightarrow> sub_context \<Rightarrow> io \<Rightarrow> ((sub_context \<times> io) + (sub_context \<times> io)) option" where
  "sub_session env ctx io =
     (let io1 = call Mosquitto_lib_init io in
      if MOSQ_ERR_SUCCESS \<noteq> lib_init_rc env then
        Some (Inl (ctx\<lparr>sub_exit_code := EXIT_FAILURE\<rparr>,
                   print_err ''error: failed to init mosquitto library'' io1))
      else
      let io2 = call (Mosquitto_new (sub_id ctx) True) io1 in
      if \<not> new_ok env then
        Some (Inl (ctx\<lparr>sub_exit_code := EXIT_FAILURE\<rparr>,
                   call Mosquitto_lib_cleanup
                     (print_err ''error: failed to create mosquitto instance'' io2)))
      else
      let io3 = call (Mosquitto_username_pw_set (sub_user ctx) (sub_password ctx)) io2 in
      if MOSQ_ERR_SUCCESS \<noteq> username_pw_set_rc env then
        Some (Inl (ctx\<lparr>sub_exit_code := EXIT_FAILURE\<rparr>,
                   call Mosquitto_lib_cleanup (call Mosquitto_destroy
                     (print_err ''error: failed to set user and password'' io3))))
      else
      let io4 = call Mosquitto_message_callback_set io3;
          io5 = call (Mosquitto_connect (sub_host ctx) (sub_port ctx) MQTT_KEEPALIVE) io4 in
      if MOSQ_ERR_SUCCESS \<noteq> connect_rc env then
        Some (Inl (ctx\<lparr>sub_exit_code := EXIT_FAILURE\<rparr>,
                   call Mosquitto_lib_cleanup (call Mosquitto_destroy
                     (print_err ''error: failed to connect to MQTT broker'' io5))))
      else
      let io6 = call (Mosquitto_subscribe (sub_topic ctx) MQTT_QOS) io5 in
      if MOSQ_ERR_SUCCESS \<noteq> subscribe_rc env then
        Some (Inl (ctx\<lparr>sub_exit_code := EXIT_FAILURE\<rparr>,
                   call Mosquitto_lib_cleanup (call Mosquitto_destroy
                     (print_err ''error: failed to subscribe'' io6))))
      else
      (case sub_receive_loop env 0 (subscribe_rc env) io6 of
         None \<Rightarrow> None
       | Some (rc, io7) \<Rightarrow>
           if MOSQ_ERR_SUCCESS = rc \<and> errno_after_loop env \<noteq> EINTR then
             Some (Inr (ctx\<lparr>sub_exit_code := EXIT_FAILURE\<rparr>,
                        print_err (''error: failed to execute message loop; '' @
                                   strerror env (errno_after_loop env)) io7))
           else Some (Inr (ctx, io7))))"

text \<open>The unsubscribe step (lines 250 to 254).\<close>

definition sub_unsubscribe :: "mosq_env \<Rightarrow> sub_context \<Rightarrow> io \<Rightarrow> sub_context \<times> io" where
  "sub_unsubscribe env ctx io =
     (let io1 = call (Mosquitto_unsubscribe (sub_topic ctx)) io in
      if MOSQ_ERR_SUCCESS \<noteq> unsubscribe_rc env
      then (ctx, print_err ''warning: failed to unsubscribe'' io1)
      else (ctx, io1))"

definition mqtt_sub :: "mosq_env \<Rightarrow> sub_context \<Rightarrow> io \<Rightarrow> (sub_context \<times> io) option" where
  "mqtt_sub env ctx io =
     (case sub_session env ctx io of
        None \<Rightarrow> None
      | Some (Inl (ctx1, io1)) \<Rightarrow> Some (ctx1, io1)
      | Some (Inr (ctx1, io1)) \<Rightarrow>
          (case sub_unsubscribe env ctx1 io1 of
             (ctx2, io2) \<Rightarrow>
               Some (ctx2, call Mosquitto_lib_cleanup (call Mosquitto_destroy io2))))"

text \<open>
  \<^verbatim>\<open>main\<close>: \<open>None\<close> when the receive loop never ends, otherwise the exit status of the
  process and what the run did.
\<close>

definition sub_main :: "bool \<Rightarrow> mosq_env \<Rightarrow> string list \<Rightarrow> (error + (int \<times> io)) option" where
  "sub_main pc env argv =
     (case sub_context_init pc argv io0 of
        Inl e \<Rightarrow> Some (Inl e)
      | Inr (ctx, io) \<Rightarrow>
          (case (case sub_cmd ctx of
                   COMMAND_SUB \<Rightarrow> mqtt_sub env ctx io
                 | SUB_COMMAND_SHOW_HELP \<Rightarrow> Some (ctx, sub_print_usage io)) of
             None \<Rightarrow> None
           | Some (ctx', io') \<Rightarrow> Some (Inr (sub_context_cleanup ctx', io'))))"

section \<open>Concrete runs\<close>

text \<open>
  A broker that answers every call with success, delivers no message, and a shutdown
  request that arrives while the second call of \<^verbatim>\<open>mosquitto_loop\<close> waits (so that
  the call is interrupted and leaves \<^verbatim>\<open>errno\<close> at \<^verbatim>\<open>EINTR\<close>).
\<close>

definition broker_ok :: mosq_env where
  "broker_ok =
     \<lparr>lib_init_rc = 0, new_ok = True, username_pw_set_rc = 0, connect_rc = 0,
      publish_rc = 0, subscribe_rc = 0, loop_rc = (\<lambda>i. 0), loop_messages = (\<lambda>i. []),
      shutdown_requested = (\<lambda>i. 2 \<le> i), errno_after_loop = EINTR,
      strerror = (\<lambda>e. ''Success''), unsubscribe_rc = 0\<rparr>"

lemmas getopt_defs =
  getopt_long_def nonoption_p_def process_long_option_def long_matches_def
  short_option_def strchr_def optstring_def

lemmas const_defs =
  MOSQ_ERR_SUCCESS_def EXIT_SUCCESS_def EXIT_FAILURE_def EINTR_def MQTT_DEFAULT_PORT_def
  MQTT_KEEPALIVE_def MQTT_QOS_def LOOP_INTERVAL_def

lemmas io_defs = io0_def call_def print_out_def print_err_def

lemmas pub_defs =
  pub_main_def pub_context_init_def pub_switch_def pub_long_opts_def mqtt_pub_def
  pub_context_cleanup_def pub_print_usage_def strdup_def strlen_def

lemmas sub_defs =
  sub_main_def sub_context_init_def sub_switch_def sub_long_opts_def mqtt_sub_def
  sub_session_def sub_unsubscribe_def sub_context_cleanup_def sub_print_usage_def
  strdup_def

text \<open>
  C2. The keep-alive argument of \<^verbatim>\<open>mosquitto_connect\<close> is \<^verbatim>\<open>MQTT_KEEPALIVE\<close>, which
  is \<^verbatim>\<open>(60 * 1000)\<close>: in a run of either tool that reaches the connect call, the call
  is made with the value 60000, not 60. libmosquitto reads the argument in seconds.
\<close>

theorem connect_keepalive_is_60000:
  "pub_main pc broker_ok [prog, ''-t'', ''test'', ''-m'', ''hello''] =
     Inr (0, \<lparr>calls =
                [Mosquitto_lib_init, Mosquitto_new None True,
                 Mosquitto_username_pw_set None None,
                 Mosquitto_connect (Some ''localhost'') 1883 60000,
                 Mosquitto_publish (Some ''test'') 5 (Some ''hello'') 0 False,
                 Mosquitto_destroy, Mosquitto_lib_cleanup],
              stdout = [], stderr = []\<rparr>)
   \<and> sub_main pc broker_ok [prog, ''-t'', ''test''] =
     Some (Inr (0, \<lparr>calls =
                [Mosquitto_lib_init, Mosquitto_new None True,
                 Mosquitto_username_pw_set None None,
                 Mosquitto_message_callback_set,
                 Mosquitto_connect (Some ''localhost'') 1883 60000,
                 Mosquitto_subscribe (Some ''test'') 0,
                 Mosquitto_loop 1000 1, Mosquitto_loop 1000 1,
                 Mosquitto_unsubscribe (Some ''test''),
                 Mosquitto_destroy, Mosquitto_lib_cleanup],
              stdout = [], stderr = []\<rparr>))
   \<and> MQTT_KEEPALIVE \<noteq> 60"
proof -
  have "pub_main pc broker_ok [prog, ''-t'', ''test'', ''-m'', ''hello''] =
     Inr (0, \<lparr>calls =
                [Mosquitto_lib_init, Mosquitto_new None True,
                 Mosquitto_username_pw_set None None,
                 Mosquitto_connect (Some ''localhost'') 1883 60000,
                 Mosquitto_publish (Some ''test'') 5 (Some ''hello'') 0 False,
                 Mosquitto_destroy, Mosquitto_lib_cleanup],
              stdout = [], stderr = []\<rparr>)"
    by (simp add: pub_defs getopt_defs const_defs io_defs broker_ok_def)
  moreover have "sub_main pc broker_ok [prog, ''-t'', ''test''] =
     Some (Inr (0, \<lparr>calls =
                [Mosquitto_lib_init, Mosquitto_new None True,
                 Mosquitto_username_pw_set None None,
                 Mosquitto_message_callback_set,
                 Mosquitto_connect (Some ''localhost'') 1883 60000,
                 Mosquitto_subscribe (Some ''test'') 0,
                 Mosquitto_loop 1000 1, Mosquitto_loop 1000 1,
                 Mosquitto_unsubscribe (Some ''test''),
                 Mosquitto_destroy, Mosquitto_lib_cleanup],
              stdout = [], stderr = []\<rparr>))"
    by (simp add: sub_defs getopt_defs const_defs io_defs broker_ok_def
        sub_receive_loop.simps)
  moreover have "MQTT_KEEPALIVE \<noteq> 60"
    by (simp add: MQTT_KEEPALIVE_def)
  ultimately show ?thesis by blast
qed

text \<open>
  C3. The test after the receive loop reads \<^verbatim>\<open>MOSQ_ERR_SUCCESS == rc\<close>. When the
  second call of \<^verbatim>\<open>mosquitto_loop\<close> fails (7 is \<^verbatim>\<open>MOSQ_ERR_CONN_LOST\<close>) with no
  shutdown requested, the loop ends, nothing is written to the error stream and the exit
  status is 0. When the loop ends because shutdown was requested, every call having
  succeeded, and \<^verbatim>\<open>errno\<close> is not \<^verbatim>\<open>EINTR\<close> (here 0), the error is reported and the
  exit status is 1.
\<close>

theorem receive_loop_error_exits_0:
  "sub_main pc (broker_ok\<lparr>loop_rc := (\<lambda>i. if i = 0 then 0 else 7),
                          shutdown_requested := (\<lambda>i. False),
                          errno_after_loop := 104\<rparr>)
     [prog, ''-t'', ''test''] =
     Some (Inr (0, \<lparr>calls =
                [Mosquitto_lib_init, Mosquitto_new None True,
                 Mosquitto_username_pw_set None None,
                 Mosquitto_message_callback_set,
                 Mosquitto_connect (Some ''localhost'') 1883 60000,
                 Mosquitto_subscribe (Some ''test'') 0,
                 Mosquitto_loop 1000 1, Mosquitto_loop 1000 1,
                 Mosquitto_unsubscribe (Some ''test''),
                 Mosquitto_destroy, Mosquitto_lib_cleanup],
              stdout = [], stderr = []\<rparr>))
   \<and> sub_main pc (broker_ok\<lparr>errno_after_loop := 0\<rparr>) [prog, ''-t'', ''test''] =
     Some (Inr (1, \<lparr>calls =
                [Mosquitto_lib_init, Mosquitto_new None True,
                 Mosquitto_username_pw_set None None,
                 Mosquitto_message_callback_set,
                 Mosquitto_connect (Some ''localhost'') 1883 60000,
                 Mosquitto_subscribe (Some ''test'') 0,
                 Mosquitto_loop 1000 1, Mosquitto_loop 1000 1,
                 Mosquitto_unsubscribe (Some ''test''),
                 Mosquitto_destroy, Mosquitto_lib_cleanup],
              stdout = [],
              stderr = [''error: failed to execute message loop; Success'']\<rparr>))"
proof -
  have "sub_main pc (broker_ok\<lparr>loop_rc := (\<lambda>i. if i = 0 then 0 else 7),
                          shutdown_requested := (\<lambda>i. False),
                          errno_after_loop := 104\<rparr>)
     [prog, ''-t'', ''test''] =
     Some (Inr (0, \<lparr>calls =
                [Mosquitto_lib_init, Mosquitto_new None True,
                 Mosquitto_username_pw_set None None,
                 Mosquitto_message_callback_set,
                 Mosquitto_connect (Some ''localhost'') 1883 60000,
                 Mosquitto_subscribe (Some ''test'') 0,
                 Mosquitto_loop 1000 1, Mosquitto_loop 1000 1,
                 Mosquitto_unsubscribe (Some ''test''),
                 Mosquitto_destroy, Mosquitto_lib_cleanup],
              stdout = [], stderr = []\<rparr>))"
    by (simp add: sub_defs getopt_defs const_defs io_defs broker_ok_def
        sub_receive_loop.simps)
  moreover have "sub_main pc (broker_ok\<lparr>errno_after_loop := 0\<rparr>) [prog, ''-t'', ''test''] =
     Some (Inr (1, \<lparr>calls =
                [Mosquitto_lib_init, Mosquitto_new None True,
                 Mosquitto_username_pw_set None None,
                 Mosquitto_message_callback_set,
                 Mosquitto_connect (Some ''localhost'') 1883 60000,
                 Mosquitto_subscribe (Some ''test'') 0,
                 Mosquitto_loop 1000 1, Mosquitto_loop 1000 1,
                 Mosquitto_unsubscribe (Some ''test''),
                 Mosquitto_destroy, Mosquitto_lib_cleanup],
              stdout = [],
              stderr = [''error: failed to execute message loop; Success'']\<rparr>))"
    by (simp add: sub_defs getopt_defs const_defs io_defs broker_ok_def
        sub_receive_loop.simps)
  ultimately show ?thesis by blast
qed

text \<open>
  C4. Every entry of the long-option table is \<^verbatim>\<open>no_argument\<close>, so a long spelling
  never takes a value. \<^verbatim>\<open>--topic test\<close> returns \<^verbatim>\<open>'t'\<close> with \<^verbatim>\<open>optarg\<close> NULL, which
  the \<^verbatim>\<open>switch\<close> hands to \<^verbatim>\<open>strdup\<close>; \<^verbatim>\<open>--topic=test\<close> is rejected by
  \<^verbatim>\<open>getopt_long\<close> and ends as an unknown option. The short spelling \<^verbatim>\<open>-t test\<close>
  records the topic.
\<close>

theorem long_spelling_takes_no_value:
  "pub_context_init pc [prog, ''--topic'', ''test'', ''-m'', ''hello''] io0 = Inl Null_Pointer
   \<and> sub_context_init pc [prog, ''--topic'', ''test''] io0 = Inl Null_Pointer
   \<and> pub_context_init pc [prog, ''--topic=test'', ''-m'', ''hello''] io0 =
       Inr (\<lparr>pub_id = None, pub_user = None, pub_password = None,
             pub_host = Some ''localhost'', pub_port = 1883, pub_topic = None,
             pub_message = None, pub_retain = False, pub_cmd = PUB_COMMAND_SHOW_HELP,
             pub_exit_code = 1\<rparr>,
            \<lparr>calls = [], stdout = [], stderr = [''error: unknown option'']\<rparr>)
   \<and> pub_context_init pc [prog, ''-t'', ''test'', ''-m'', ''hello''] io0 =
       Inr (\<lparr>pub_id = None, pub_user = None, pub_password = None,
             pub_host = Some ''localhost'', pub_port = 1883, pub_topic = Some ''test'',
             pub_message = Some ''hello'', pub_retain = False, pub_cmd = COMMAND_PUB,
             pub_exit_code = 0\<rparr>,
            \<lparr>calls = [], stdout = [], stderr = []\<rparr>)"
proof -
  have "pub_context_init pc [prog, ''--topic'', ''test'', ''-m'', ''hello''] io0
        = Inl Null_Pointer"
    by (simp add: pub_defs getopt_defs)
  moreover have "sub_context_init pc [prog, ''--topic'', ''test''] io0 = Inl Null_Pointer"
    by (simp add: sub_defs getopt_defs)
  moreover have "pub_context_init pc [prog, ''--topic=test'', ''-m'', ''hello''] io0 =
       Inr (\<lparr>pub_id = None, pub_user = None, pub_password = None,
             pub_host = Some ''localhost'', pub_port = 1883, pub_topic = None,
             pub_message = None, pub_retain = False, pub_cmd = PUB_COMMAND_SHOW_HELP,
             pub_exit_code = 1\<rparr>,
            \<lparr>calls = [], stdout = [], stderr = [''error: unknown option'']\<rparr>)"
    by (simp add: pub_defs getopt_defs const_defs io_defs)
  moreover have "pub_context_init pc [prog, ''-t'', ''test'', ''-m'', ''hello''] io0 =
       Inr (\<lparr>pub_id = None, pub_user = None, pub_password = None,
             pub_host = Some ''localhost'', pub_port = 1883, pub_topic = Some ''test'',
             pub_message = Some ''hello'', pub_retain = False, pub_cmd = COMMAND_PUB,
             pub_exit_code = 0\<rparr>,
            \<lparr>calls = [], stdout = [], stderr = []\<rparr>)"
    by (simp add: pub_defs getopt_defs const_defs io_defs)
  ultimately show ?thesis by blast
qed

text \<open>
  C6. Invoked with exactly \<^verbatim>\<open>-t test -m hello\<close>, and every call to the library
  succeeding, the publisher makes the calls below and no others: one publish call, with
  topic \<^verbatim>\<open>test\<close>, payload length 5, payload \<^verbatim>\<open>hello\<close>, QoS 0 and retain false; the
  exit status is 0 and nothing is printed.
\<close>

theorem pub_publishes_once:
  assumes "lib_init_rc env = MOSQ_ERR_SUCCESS" and "new_ok env"
    and "username_pw_set_rc env = MOSQ_ERR_SUCCESS"
    and "connect_rc env = MOSQ_ERR_SUCCESS" and "publish_rc env = MOSQ_ERR_SUCCESS"
  shows "pub_main pc env [prog, ''-t'', ''test'', ''-m'', ''hello''] =
     Inr (0, \<lparr>calls =
                [Mosquitto_lib_init, Mosquitto_new None True,
                 Mosquitto_username_pw_set None None,
                 Mosquitto_connect (Some ''localhost'') 1883 MQTT_KEEPALIVE,
                 Mosquitto_publish (Some ''test'') 5 (Some ''hello'') 0 False,
                 Mosquitto_destroy, Mosquitto_lib_cleanup],
              stdout = [], stderr = []\<rparr>)"
  using assms by (simp add: pub_defs getopt_defs const_defs io_defs)

theorem pub_publishes_once_witness:
  "lib_init_rc broker_ok = MOSQ_ERR_SUCCESS \<and> new_ok broker_ok
   \<and> username_pw_set_rc broker_ok = MOSQ_ERR_SUCCESS
   \<and> connect_rc broker_ok = MOSQ_ERR_SUCCESS \<and> publish_rc broker_ok = MOSQ_ERR_SUCCESS
   \<and> pub_main False broker_ok [''mqtt_pub'', ''-t'', ''test'', ''-m'', ''hello''] =
     Inr (0, \<lparr>calls =
                [Mosquitto_lib_init, Mosquitto_new None True,
                 Mosquitto_username_pw_set None None,
                 Mosquitto_connect (Some ''localhost'') 1883 MQTT_KEEPALIVE,
                 Mosquitto_publish (Some ''test'') 5 (Some ''hello'') 0 False,
                 Mosquitto_destroy, Mosquitto_lib_cleanup],
              stdout = [], stderr = []\<rparr>)"
proof -
  have h: "lib_init_rc broker_ok = MOSQ_ERR_SUCCESS" "new_ok broker_ok"
    "username_pw_set_rc broker_ok = MOSQ_ERR_SUCCESS"
    "connect_rc broker_ok = MOSQ_ERR_SUCCESS" "publish_rc broker_ok = MOSQ_ERR_SUCCESS"
    by (simp_all add: broker_ok_def MOSQ_ERR_SUCCESS_def)
  from h pub_publishes_once [OF h, of False "''mqtt_pub''"] show ?thesis by blast
qed

section \<open>Parsing as a function of the flags\<close>

text \<open>
  The loop of \<^verbatim>\<open>context_init\<close> consumes the results of \<^verbatim>\<open>getopt_long\<close> one by one
  (\<open>getopt_seq\<close> lists them all). A result is a flag character with its argument. The
  \<^verbatim>\<open>switch\<close> treats a flag in one of four ways: it records it and goes on
  (\<open>Handled\<close>), it is the help flag, it is not a flag of the tool (\<open>Unknown_flag\<close>;
  \<^verbatim>\<open>getopt_long\<close> reports its own errors as \<^verbatim>\<open>'?'\<close>, which is one), or it is a
  value-taking flag whose argument is NULL. Parsing stops at the first flag that is not
  \<open>Handled\<close>; \<open>processed\<close> are the flags before it.
\<close>

declare getopt_seq.simps [simp del] pub_parse_loop.simps [simp del] sub_parse_loop.simps [simp del]

type_synonym flag = "char \<times> string option"

datatype flag_class = Handled | Help_flag | Unknown_flag | Null_argument

definition first_stop :: "(flag \<Rightarrow> flag_class) \<Rightarrow> flag list \<Rightarrow> flag_class option" where
  "first_stop cls rs =
     (case dropWhile (\<lambda>r. cls r = Handled) rs of [] \<Rightarrow> None | r # _ \<Rightarrow> Some (cls r))"

definition processed :: "(flag \<Rightarrow> flag_class) \<Rightarrow> flag list \<Rightarrow> flag list" where
  "processed cls rs = takeWhile (\<lambda>r. cls r = Handled) rs"

text \<open>
  The argument of the last occurrence of flag \<open>x\<close> in a list of flags (\<open>None\<close> when
  the flag does not occur), and the value of a field that this flag sets: the argument
  of its last occurrence, or what the field held before when the flag does not occur.
  The port is \<^verbatim>\<open>atoi\<close> of that argument; a handled flag has an argument, so
  \<^verbatim>\<open>atoi\<close> does not fail on it and the 0 of \<open>int_field\<close> is never taken there.
\<close>

definition last_optarg :: "char \<Rightarrow> flag list \<Rightarrow> string option option" where
  "last_optarg x rs =
     (case filter (\<lambda>r. fst r = x) rs of [] \<Rightarrow> None | r # fs \<Rightarrow> Some (snd (last (r # fs))))"

definition string_field :: "char \<Rightarrow> flag list \<Rightarrow> string option \<Rightarrow> string option" where
  "string_field x rs dflt = (case last_optarg x rs of None \<Rightarrow> dflt | Some a \<Rightarrow> a)"

definition int_field :: "char \<Rightarrow> flag list \<Rightarrow> int \<Rightarrow> int" where
  "int_field x rs dflt =
     (case last_optarg x rs of
        None \<Rightarrow> dflt
      | Some a \<Rightarrow> (case atoi a of Inl e \<Rightarrow> 0 | Inr n \<Rightarrow> n))"

lemma first_stop_Nil [simp]: "first_stop cls [] = None"
  by (simp add: first_stop_def)

lemma first_stop_Cons:
  "first_stop cls (r # rs) = (if cls r = Handled then first_stop cls rs else Some (cls r))"
  by (simp add: first_stop_def)

lemma processed_Nil [simp]: "processed cls [] = []"
  by (simp add: processed_def)

lemma processed_Cons:
  "processed cls (r # rs) = (if cls r = Handled then r # processed cls rs else [])"
  by (simp add: processed_def)

lemma last_optarg_Nil [simp]: "last_optarg x [] = None"
  by (simp add: last_optarg_def)

lemma last_optarg_Cons:
  "last_optarg x (r # rs) =
     (case last_optarg x rs of
        None \<Rightarrow> if fst r = x then Some (snd r) else None
      | Some a \<Rightarrow> Some a)"
  by (auto simp: last_optarg_def split: list.splits)

lemma string_field_Nil [simp]: "string_field x [] dflt = dflt"
  by (simp add: string_field_def)

lemma int_field_Nil [simp]: "int_field x [] dflt = dflt"
  by (simp add: int_field_def)

lemma string_field_Cons:
  "string_field x (r # rs) dflt = string_field x rs (if fst r = x then snd r else dflt)"
  by (simp add: string_field_def last_optarg_Cons split: option.splits)

lemma int_field_Cons:
  "int_field x (r # rs) dflt =
     int_field x rs
       (if fst r = x then (case atoi (snd r) of Inl e \<Rightarrow> 0 | Inr n \<Rightarrow> n) else dflt)"
  by (simp add: int_field_def last_optarg_Cons split: option.splits sum.splits)

lemma last_optarg_absent: "x \<notin> fst ` set rs \<Longrightarrow> last_optarg x rs = None"
  by (induction rs) (auto simp: last_optarg_Cons)

lemma first_stop_all_Handled:
  "list_all (\<lambda>r. cls r = Handled) rs \<Longrightarrow> first_stop cls rs = None"
  by (induction rs) (auto simp: first_stop_Cons)

lemma processed_all_Handled:
  "list_all (\<lambda>r. cls r = Handled) rs \<Longrightarrow> processed cls rs = rs"
  by (induction rs) (auto simp: processed_Cons)

lemma filter_flag_le_1:
  "distinct (map fst rs) \<Longrightarrow> length (filter (\<lambda>r. fst r = x) rs) \<le> Suc 0"
  by (induction rs) (auto simp: filter_empty_conv image_iff)

lemma mset_eq_short:
  assumes "mset xs = mset ys" and "length xs \<le> Suc 0"
  shows "xs = ys"
proof -
  from assms(1) have "length xs = length ys"
    by (rule mset_eq_length)
  with assms show ?thesis
    by (cases xs; cases ys) auto
qed

lemma last_optarg_mset:
  assumes "mset rs1 = mset rs2" and "distinct (map fst rs1)"
  shows "last_optarg x rs1 = last_optarg x rs2"
proof -
  from assms(1) have "mset (filter (\<lambda>r. fst r = x) rs1) = mset (filter (\<lambda>r. fst r = x) rs2)"
    by simp
  from mset_eq_short [OF this filter_flag_le_1 [OF assms(2)]] show ?thesis
    by (simp add: last_optarg_def)
qed

subsection \<open>The publisher's flags\<close>

definition pub_class :: "flag \<Rightarrow> flag_class" where
  "pub_class r =
     (if fst r \<in> set ''ihpuPtm'' then (if snd r = None then Null_argument else Handled)
      else if fst r = CHR ''r'' then Handled
      else if fst r = CHR ''H'' then Help_flag
      else Unknown_flag)"

text \<open>The flags of an argument vector, as \<^verbatim>\<open>getopt_long\<close> reads them for the publisher.\<close>

definition pub_scan :: "bool \<Rightarrow> string list \<Rightarrow> flag list" where
  "pub_scan pc argv = getopt_seq pc optstring pub_long_opts ([], drop 1 argv)"

text \<open>The loop of \<^verbatim>\<open>context_init\<close>, run on the list of results.\<close>

fun pub_parse_list :: "pub_context \<Rightarrow> io \<Rightarrow> flag list \<Rightarrow> error + (pub_context \<times> io)" where
  "pub_parse_list ctx io [] = Inr (ctx, io)"
| "pub_parse_list ctx io ((x, optarg) # rs) =
     (case pub_switch ctx io (Opt x) optarg of
        Inl e \<Rightarrow> Inl e
      | Inr (ctx', io', done) \<Rightarrow>
          if done then Inr (ctx', io') else pub_parse_list ctx' io' rs)"

text \<open>
  The context after a list of handled flags: every field holds the argument of the last
  occurrence of its flag.
\<close>

definition pub_config :: "pub_context \<Rightarrow> flag list \<Rightarrow> pub_context" where
  "pub_config ctx rs =
     ctx\<lparr>pub_id := string_field CHR ''i'' rs (pub_id ctx),
         pub_user := string_field CHR ''u'' rs (pub_user ctx),
         pub_password := string_field CHR ''P'' rs (pub_password ctx),
         pub_host := string_field CHR ''h'' rs (pub_host ctx),
         pub_port := int_field CHR ''p'' rs (pub_port ctx),
         pub_topic := string_field CHR ''t'' rs (pub_topic ctx),
         pub_message := string_field CHR ''m'' rs (pub_message ctx),
         pub_retain := (pub_retain ctx \<or> CHR ''r'' \<in> fst ` set rs)\<rparr>"

definition pub_defaults :: pub_context where
  "pub_defaults =
     \<lparr>pub_id = None, pub_user = None, pub_password = None,
      pub_host = Some ''localhost'', pub_port = MQTT_DEFAULT_PORT,
      pub_topic = None, pub_message = None, pub_retain = False,
      pub_cmd = COMMAND_PUB, pub_exit_code = EXIT_SUCCESS\<rparr>"

lemma pub_parse_loop_list:
  "pub_parse_loop pc ctx io d = pub_parse_list ctx io (getopt_seq pc optstring pub_long_opts d)"
proof (induction pc ctx io d rule: pub_parse_loop.induct)
  case (1 pc ctx io d)
  obtain c optarg d' where g: "getopt_long pc optstring pub_long_opts d = ((c, optarg), d')"
    by (metis surj_pair)
  show ?case
  proof (cases c)
    case End
    with g show ?thesis
      by (simp add: pub_parse_loop.simps [of pc ctx io d]
          getopt_seq.simps [of pc optstring pub_long_opts d] pub_switch_def)
  next
    case (Opt x)
    show ?thesis
    proof (cases "pub_switch ctx io (Opt x) optarg")
      case (Inl e)
      with g Opt show ?thesis
        by (simp add: pub_parse_loop.simps [of pc ctx io d]
            getopt_seq.simps [of pc optstring pub_long_opts d])
    next
      case (Inr r)
      obtain ctx' io' dn where r: "r = (ctx', io', dn)"
        by (cases r)
      show ?thesis
      proof (cases dn)
        case True
        with g Opt Inr r show ?thesis
          by (simp add: pub_parse_loop.simps [of pc ctx io d]
              getopt_seq.simps [of pc optstring pub_long_opts d])
      next
        case False
        with g Opt Inr r have "pub_parse_loop pc ctx' io' d'
          = pub_parse_list ctx' io' (getopt_seq pc optstring pub_long_opts d')"
          using 1 [of "(c, optarg)" d' c optarg r ctx' "(io', dn)" io' dn] by simp
        with g Opt Inr r False show ?thesis
          by (simp add: pub_parse_loop.simps [of pc ctx io d]
              getopt_seq.simps [of pc optstring pub_long_opts d])
      qed
    qed
  qed
qed

lemma pub_config_Nil [simp]: "pub_config ctx [] = ctx"
  by (simp add: pub_config_def)

lemma pub_class_Handled:
  assumes "pub_class (x, a) = Handled"
  obtains v where "x \<in> set ''ihpuPtm''" and "a = Some v" | "x = CHR ''r''"
  using assms by (auto simp: pub_class_def split: if_splits)

lemma pub_switch_Handled:
  assumes "pub_class (x, a) = Handled"
  shows "\<exists>ctx'. pub_switch ctx io (Opt x) a = Inr (ctx', io, False)
           \<and> (\<forall>rs. pub_config ctx' rs = pub_config ctx ((x, a) # rs))"
  using assms
proof (cases rule: pub_class_Handled)
  case (1 v)
  from 1(1) consider "x = CHR ''i''" | "x = CHR ''h''" | "x = CHR ''p''" | "x = CHR ''u''"
    | "x = CHR ''P''" | "x = CHR ''t''" | "x = CHR ''m''"
    by auto
  then show ?thesis
  proof cases
    case 1
    then show ?thesis using \<open>a = Some v\<close>
      by (simp add: pub_switch_def strdup_def pub_config_def string_field_Cons int_field_Cons)
  next
    case 2
    then show ?thesis using \<open>a = Some v\<close>
      by (simp add: pub_switch_def strdup_def pub_config_def string_field_Cons int_field_Cons)
  next
    case 3
    then show ?thesis using \<open>a = Some v\<close>
      by (simp add: pub_switch_def atoi_def pub_config_def string_field_Cons int_field_Cons)
  next
    case 4
    then show ?thesis using \<open>a = Some v\<close>
      by (simp add: pub_switch_def strdup_def pub_config_def string_field_Cons int_field_Cons)
  next
    case 5
    then show ?thesis using \<open>a = Some v\<close>
      by (simp add: pub_switch_def strdup_def pub_config_def string_field_Cons int_field_Cons)
  next
    case 6
    then show ?thesis using \<open>a = Some v\<close>
      by (simp add: pub_switch_def strdup_def pub_config_def string_field_Cons int_field_Cons)
  next
    case 7
    then show ?thesis using \<open>a = Some v\<close>
      by (simp add: pub_switch_def strdup_def pub_config_def string_field_Cons int_field_Cons)
  qed
next
  case 2
  then show ?thesis
    by (simp add: pub_switch_def pub_config_def string_field_Cons int_field_Cons)
qed

lemma pub_class_Help: "pub_class (x, a) = Help_flag \<Longrightarrow> x = CHR ''H''"
  by (auto simp: pub_class_def split: if_splits)

lemma pub_class_Unknown: "pub_class (x, a) = Unknown_flag \<Longrightarrow> x \<notin> set ''ihpuPtmrH''"
  by (auto simp: pub_class_def split: if_splits)

lemma pub_switch_Help:
  "pub_class (x, a) = Help_flag \<Longrightarrow>
   pub_switch ctx io (Opt x) a = Inr (ctx\<lparr>pub_cmd := PUB_COMMAND_SHOW_HELP\<rparr>, io, True)"
  by (drule pub_class_Help) (simp add: pub_switch_def)

lemma pub_switch_Unknown:
  "pub_class (x, a) = Unknown_flag \<Longrightarrow>
   pub_switch ctx io (Opt x) a =
     Inr (ctx\<lparr>pub_exit_code := EXIT_FAILURE, pub_cmd := PUB_COMMAND_SHOW_HELP\<rparr>,
          print_err ''error: unknown option'' io, True)"
  by (drule pub_class_Unknown) (simp add: pub_switch_def)

lemma pub_switch_Null:
  "pub_class (x, a) = Null_argument \<Longrightarrow> pub_switch ctx io (Opt x) a = Inl Null_Pointer"
  by (auto simp: pub_class_def pub_switch_def strdup_def atoi_def split: if_splits)


lemma pub_parse_list_eq:
  "pub_parse_list ctx io rs =
     (case first_stop pub_class rs of
        None \<Rightarrow> Inr (pub_config ctx (processed pub_class rs), io)
      | Some Help_flag \<Rightarrow>
          Inr ((pub_config ctx (processed pub_class rs))\<lparr>pub_cmd := PUB_COMMAND_SHOW_HELP\<rparr>, io)
      | Some Unknown_flag \<Rightarrow>
          Inr ((pub_config ctx (processed pub_class rs))
                 \<lparr>pub_exit_code := EXIT_FAILURE, pub_cmd := PUB_COMMAND_SHOW_HELP\<rparr>,
               print_err ''error: unknown option'' io)
      | Some c \<Rightarrow> Inl Null_Pointer)"
proof (induction rs arbitrary: ctx)
  case Nil
  show ?case by simp
next
  case (Cons r rs)
  obtain x a where r: "r = (x, a)" by (cases r)
  show ?case
  proof (cases "pub_class (x, a)")
    case Handled
    from pub_switch_Handled [OF Handled, of ctx io] obtain ctx' where
      s: "pub_switch ctx io (Opt x) a = Inr (ctx', io, False)" and
      c: "\<And>rs. pub_config ctx' rs = pub_config ctx ((x, a) # rs)"
      by blast
    show ?thesis
      unfolding r
      by (simp add: s Handled first_stop_Cons processed_Cons Cons c
          split: option.split flag_class.split)
  next
    case Help_flag
    show ?thesis
      unfolding r
      by (simp add: pub_switch_Help [OF Help_flag] Help_flag first_stop_Cons processed_Cons
          pub_config_def)
  next
    case Unknown_flag
    show ?thesis
      unfolding r
      by (simp add: pub_switch_Unknown [OF Unknown_flag] Unknown_flag first_stop_Cons
          processed_Cons pub_config_def)
  next
    case Null_argument
    show ?thesis
      unfolding r
      by (simp add: pub_switch_Null [OF Null_argument] Null_argument first_stop_Cons
          processed_Cons)
  qed
qed

lemma pub_context_init_eq:
  "pub_context_init pc argv io =
     (case first_stop pub_class (pub_scan pc argv) of
        None \<Rightarrow>
          if pub_topic (pub_config pub_defaults (processed pub_class (pub_scan pc argv))) = None
             \<or> pub_message (pub_config pub_defaults (processed pub_class (pub_scan pc argv))) = None
          then Inr ((pub_config pub_defaults (processed pub_class (pub_scan pc argv)))
                      \<lparr>pub_exit_code := EXIT_FAILURE, pub_cmd := PUB_COMMAND_SHOW_HELP\<rparr>,
                    print_err ''error: topic or message not specified'' io)
          else Inr (pub_config pub_defaults (processed pub_class (pub_scan pc argv)), io)
      | Some Help_flag \<Rightarrow>
          Inr ((pub_config pub_defaults (processed pub_class (pub_scan pc argv)))
                 \<lparr>pub_cmd := PUB_COMMAND_SHOW_HELP\<rparr>, io)
      | Some Unknown_flag \<Rightarrow>
          Inr ((pub_config pub_defaults (processed pub_class (pub_scan pc argv)))
                 \<lparr>pub_exit_code := EXIT_FAILURE, pub_cmd := PUB_COMMAND_SHOW_HELP\<rparr>,
               print_err ''error: unknown option'' io)
      | Some c \<Rightarrow> Inl Null_Pointer)"
  unfolding pub_context_init_def pub_parse_loop_list pub_parse_list_eq
    pub_scan_def [symmetric] pub_defaults_def [symmetric]
  by (simp add: pub_config_def pub_defaults_def split: option.split flag_class.split)

subsection \<open>The subscriber's flags\<close>

definition sub_class :: "flag \<Rightarrow> flag_class" where
  "sub_class r =
     (if fst r \<in> set ''ihpuPt'' then (if snd r = None then Null_argument else Handled)
      else if fst r = CHR ''r'' then Handled
      else if fst r = CHR ''H'' then Help_flag
      else Unknown_flag)"

text \<open>The flags of an argument vector, as \<^verbatim>\<open>getopt_long\<close> reads them for the subscriber.\<close>

definition sub_scan :: "bool \<Rightarrow> string list \<Rightarrow> flag list" where
  "sub_scan pc argv = getopt_seq pc optstring sub_long_opts ([], drop 1 argv)"

text \<open>The loop of \<^verbatim>\<open>context_init\<close>, run on the list of results.\<close>

fun sub_parse_list :: "sub_context \<Rightarrow> io \<Rightarrow> flag list \<Rightarrow> error + (sub_context \<times> io)" where
  "sub_parse_list ctx io [] = Inr (ctx, io)"
| "sub_parse_list ctx io ((x, optarg) # rs) =
     (case sub_switch ctx io (Opt x) optarg of
        Inl e \<Rightarrow> Inl e
      | Inr (ctx', io', done) \<Rightarrow>
          if done then Inr (ctx', io') else sub_parse_list ctx' io' rs)"

text \<open>
  The context after a list of handled flags: every field holds the argument of the last
  occurrence of its flag.
\<close>

definition sub_config :: "sub_context \<Rightarrow> flag list \<Rightarrow> sub_context" where
  "sub_config ctx rs =
     ctx\<lparr>sub_id := string_field CHR ''i'' rs (sub_id ctx),
         sub_user := string_field CHR ''u'' rs (sub_user ctx),
         sub_password := string_field CHR ''P'' rs (sub_password ctx),
         sub_host := string_field CHR ''h'' rs (sub_host ctx),
         sub_port := int_field CHR ''p'' rs (sub_port ctx),
         sub_topic := string_field CHR ''t'' rs (sub_topic ctx),
         sub_retain := (sub_retain ctx \<or> CHR ''r'' \<in> fst ` set rs)\<rparr>"

definition sub_defaults :: sub_context where
  "sub_defaults =
     \<lparr>sub_id = None, sub_user = None, sub_password = None,
      sub_host = Some ''localhost'', sub_port = MQTT_DEFAULT_PORT,
      sub_topic = None, sub_retain = False,
      sub_cmd = COMMAND_SUB, sub_exit_code = EXIT_SUCCESS\<rparr>"

lemma sub_parse_loop_list:
  "sub_parse_loop pc ctx io d = sub_parse_list ctx io (getopt_seq pc optstring sub_long_opts d)"
proof (induction pc ctx io d rule: sub_parse_loop.induct)
  case (1 pc ctx io d)
  obtain c optarg d' where g: "getopt_long pc optstring sub_long_opts d = ((c, optarg), d')"
    by (metis surj_pair)
  show ?case
  proof (cases c)
    case End
    with g show ?thesis
      by (simp add: sub_parse_loop.simps [of pc ctx io d]
          getopt_seq.simps [of pc optstring sub_long_opts d] sub_switch_def)
  next
    case (Opt x)
    show ?thesis
    proof (cases "sub_switch ctx io (Opt x) optarg")
      case (Inl e)
      with g Opt show ?thesis
        by (simp add: sub_parse_loop.simps [of pc ctx io d]
            getopt_seq.simps [of pc optstring sub_long_opts d])
    next
      case (Inr r)
      obtain ctx' io' dn where r: "r = (ctx', io', dn)"
        by (cases r)
      show ?thesis
      proof (cases dn)
        case True
        with g Opt Inr r show ?thesis
          by (simp add: sub_parse_loop.simps [of pc ctx io d]
              getopt_seq.simps [of pc optstring sub_long_opts d])
      next
        case False
        with g Opt Inr r have "sub_parse_loop pc ctx' io' d'
          = sub_parse_list ctx' io' (getopt_seq pc optstring sub_long_opts d')"
          using 1 [of "(c, optarg)" d' c optarg r ctx' "(io', dn)" io' dn] by simp
        with g Opt Inr r False show ?thesis
          by (simp add: sub_parse_loop.simps [of pc ctx io d]
              getopt_seq.simps [of pc optstring sub_long_opts d])
      qed
    qed
  qed
qed

lemma sub_config_Nil [simp]: "sub_config ctx [] = ctx"
  by (simp add: sub_config_def)

lemma sub_class_Handled:
  assumes "sub_class (x, a) = Handled"
  obtains v where "x \<in> set ''ihpuPt''" and "a = Some v" | "x = CHR ''r''"
  using assms by (auto simp: sub_class_def split: if_splits)

lemma sub_switch_Handled:
  assumes "sub_class (x, a) = Handled"
  shows "\<exists>ctx'. sub_switch ctx io (Opt x) a = Inr (ctx', io, False)
           \<and> (\<forall>rs. sub_config ctx' rs = sub_config ctx ((x, a) # rs))"
  using assms
proof (cases rule: sub_class_Handled)
  case (1 v)
  from 1(1) consider "x = CHR ''i''" | "x = CHR ''h''" | "x = CHR ''p''" | "x = CHR ''u''"
    | "x = CHR ''P''" | "x = CHR ''t''"
    by auto
  then show ?thesis
  proof cases
    case 1
    then show ?thesis using \<open>a = Some v\<close>
      by (simp add: sub_switch_def strdup_def sub_config_def string_field_Cons int_field_Cons)
  next
    case 2
    then show ?thesis using \<open>a = Some v\<close>
      by (simp add: sub_switch_def strdup_def sub_config_def string_field_Cons int_field_Cons)
  next
    case 3
    then show ?thesis using \<open>a = Some v\<close>
      by (simp add: sub_switch_def atoi_def sub_config_def string_field_Cons int_field_Cons)
  next
    case 4
    then show ?thesis using \<open>a = Some v\<close>
      by (simp add: sub_switch_def strdup_def sub_config_def string_field_Cons int_field_Cons)
  next
    case 5
    then show ?thesis using \<open>a = Some v\<close>
      by (simp add: sub_switch_def strdup_def sub_config_def string_field_Cons int_field_Cons)
  next
    case 6
    then show ?thesis using \<open>a = Some v\<close>
      by (simp add: sub_switch_def strdup_def sub_config_def string_field_Cons int_field_Cons)
  qed
next
  case 2
  then show ?thesis
    by (simp add: sub_switch_def sub_config_def string_field_Cons int_field_Cons)
qed

lemma sub_class_Help: "sub_class (x, a) = Help_flag \<Longrightarrow> x = CHR ''H''"
  by (auto simp: sub_class_def split: if_splits)

lemma sub_class_Unknown: "sub_class (x, a) = Unknown_flag \<Longrightarrow> x \<notin> set ''ihpuPtrH''"
  by (auto simp: sub_class_def split: if_splits)

lemma sub_switch_Help:
  "sub_class (x, a) = Help_flag \<Longrightarrow>
   sub_switch ctx io (Opt x) a = Inr (ctx\<lparr>sub_cmd := SUB_COMMAND_SHOW_HELP\<rparr>, io, True)"
  by (drule sub_class_Help) (simp add: sub_switch_def)

lemma sub_switch_Unknown:
  "sub_class (x, a) = Unknown_flag \<Longrightarrow>
   sub_switch ctx io (Opt x) a =
     Inr (ctx\<lparr>sub_exit_code := EXIT_FAILURE, sub_cmd := SUB_COMMAND_SHOW_HELP\<rparr>,
          print_err ''error: unknown option'' io, True)"
  by (drule sub_class_Unknown) (simp add: sub_switch_def)

lemma sub_switch_Null:
  "sub_class (x, a) = Null_argument \<Longrightarrow> sub_switch ctx io (Opt x) a = Inl Null_Pointer"
  by (auto simp: sub_class_def sub_switch_def strdup_def atoi_def split: if_splits)


lemma sub_parse_list_eq:
  "sub_parse_list ctx io rs =
     (case first_stop sub_class rs of
        None \<Rightarrow> Inr (sub_config ctx (processed sub_class rs), io)
      | Some Help_flag \<Rightarrow>
          Inr ((sub_config ctx (processed sub_class rs))\<lparr>sub_cmd := SUB_COMMAND_SHOW_HELP\<rparr>, io)
      | Some Unknown_flag \<Rightarrow>
          Inr ((sub_config ctx (processed sub_class rs))
                 \<lparr>sub_exit_code := EXIT_FAILURE, sub_cmd := SUB_COMMAND_SHOW_HELP\<rparr>,
               print_err ''error: unknown option'' io)
      | Some c \<Rightarrow> Inl Null_Pointer)"
proof (induction rs arbitrary: ctx)
  case Nil
  show ?case by simp
next
  case (Cons r rs)
  obtain x a where r: "r = (x, a)" by (cases r)
  show ?case
  proof (cases "sub_class (x, a)")
    case Handled
    from sub_switch_Handled [OF Handled, of ctx io] obtain ctx' where
      s: "sub_switch ctx io (Opt x) a = Inr (ctx', io, False)" and
      c: "\<And>rs. sub_config ctx' rs = sub_config ctx ((x, a) # rs)"
      by blast
    show ?thesis
      unfolding r
      by (simp add: s Handled first_stop_Cons processed_Cons Cons c
          split: option.split flag_class.split)
  next
    case Help_flag
    show ?thesis
      unfolding r
      by (simp add: sub_switch_Help [OF Help_flag] Help_flag first_stop_Cons processed_Cons
          sub_config_def)
  next
    case Unknown_flag
    show ?thesis
      unfolding r
      by (simp add: sub_switch_Unknown [OF Unknown_flag] Unknown_flag first_stop_Cons
          processed_Cons sub_config_def)
  next
    case Null_argument
    show ?thesis
      unfolding r
      by (simp add: sub_switch_Null [OF Null_argument] Null_argument first_stop_Cons
          processed_Cons)
  qed
qed

lemma sub_context_init_eq:
  "sub_context_init pc argv io =
     (case first_stop sub_class (sub_scan pc argv) of
        None \<Rightarrow>
          if sub_topic (sub_config sub_defaults (processed sub_class (sub_scan pc argv))) = None
          then Inr ((sub_config sub_defaults (processed sub_class (sub_scan pc argv)))
                      \<lparr>sub_exit_code := EXIT_FAILURE, sub_cmd := SUB_COMMAND_SHOW_HELP\<rparr>,
                    print_err ''error: missing topic'' io)
          else Inr (sub_config sub_defaults (processed sub_class (sub_scan pc argv)), io)
      | Some Help_flag \<Rightarrow>
          Inr ((sub_config sub_defaults (processed sub_class (sub_scan pc argv)))
                 \<lparr>sub_cmd := SUB_COMMAND_SHOW_HELP\<rparr>, io)
      | Some Unknown_flag \<Rightarrow>
          Inr ((sub_config sub_defaults (processed sub_class (sub_scan pc argv)))
                 \<lparr>sub_exit_code := EXIT_FAILURE, sub_cmd := SUB_COMMAND_SHOW_HELP\<rparr>,
               print_err ''error: unknown option'' io)
      | Some c \<Rightarrow> Inl Null_Pointer)"
  unfolding sub_context_init_def sub_parse_loop_list sub_parse_list_eq
    sub_scan_def [symmetric] sub_defaults_def [symmetric]
  by (simp add: sub_config_def sub_defaults_def split: option.split flag_class.split)

subsection \<open>What context\_init returns\<close>

lemma processed_flags: "x \<notin> fst ` set rs \<Longrightarrow> x \<notin> fst ` set (processed cls rs)"
  by (auto simp: processed_def dest: set_takeWhileD)

lemma string_field_absent: "x \<notin> fst ` set rs \<Longrightarrow> string_field x rs dflt = dflt"
  by (simp add: string_field_def last_optarg_absent)

lemma int_field_absent: "x \<notin> fst ` set rs \<Longrightarrow> int_field x rs dflt = dflt"
  by (simp add: int_field_def last_optarg_absent)

lemma pub_context_init_config:
  assumes "pub_context_init pc argv io = Inr (ctx, io')"
  shows "\<exists>c e. ctx = (pub_config pub_defaults (processed pub_class (pub_scan pc argv)))
                         \<lparr>pub_cmd := c, pub_exit_code := e\<rparr>"
proof -
  define cfg where "cfg = pub_config pub_defaults (processed pub_class (pub_scan pc argv))"
  have a: "cfg = cfg\<lparr>pub_cmd := pub_cmd cfg, pub_exit_code := pub_exit_code cfg\<rparr>"
    by simp
  have b: "cfg\<lparr>pub_exit_code := e, pub_cmd := c\<rparr> = cfg\<lparr>pub_cmd := c, pub_exit_code := e\<rparr>"
    for c e by simp
  have c: "cfg\<lparr>pub_cmd := c\<rparr> = cfg\<lparr>pub_cmd := c, pub_exit_code := pub_exit_code cfg\<rparr>"
    for c by simp
  from assms have "ctx = cfg \<or> ctx = cfg\<lparr>pub_cmd := PUB_COMMAND_SHOW_HELP\<rparr>
      \<or> ctx = cfg\<lparr>pub_exit_code := EXIT_FAILURE, pub_cmd := PUB_COMMAND_SHOW_HELP\<rparr>"
    unfolding pub_context_init_eq cfg_def [symmetric]
    by (simp split: option.splits flag_class.splits if_splits)
  then show ?thesis
    unfolding cfg_def [symmetric] using a b c by metis
qed

lemma pub_context_init_fields:
  assumes "pub_context_init pc argv io = Inr (ctx, io')"
  shows "pub_id ctx = string_field CHR ''i'' (processed pub_class (pub_scan pc argv)) None"
    and "pub_user ctx = string_field CHR ''u'' (processed pub_class (pub_scan pc argv)) None"
    and "pub_password ctx = string_field CHR ''P'' (processed pub_class (pub_scan pc argv)) None"
    and "pub_host ctx =
           string_field CHR ''h'' (processed pub_class (pub_scan pc argv)) (Some ''localhost'')"
    and "pub_port ctx = int_field CHR ''p'' (processed pub_class (pub_scan pc argv)) 1883"
    and "pub_topic ctx = string_field CHR ''t'' (processed pub_class (pub_scan pc argv)) None"
    and "pub_message ctx = string_field CHR ''m'' (processed pub_class (pub_scan pc argv)) None"
    and "pub_retain ctx = (CHR ''r'' \<in> fst ` set (processed pub_class (pub_scan pc argv)))"
proof -
  from pub_context_init_config [OF assms] obtain c e where
    "ctx = (pub_config pub_defaults (processed pub_class (pub_scan pc argv)))
             \<lparr>pub_cmd := c, pub_exit_code := e\<rparr>"
    by blast
  then show
    "pub_id ctx = string_field CHR ''i'' (processed pub_class (pub_scan pc argv)) None"
    "pub_user ctx = string_field CHR ''u'' (processed pub_class (pub_scan pc argv)) None"
    "pub_password ctx = string_field CHR ''P'' (processed pub_class (pub_scan pc argv)) None"
    "pub_host ctx =
           string_field CHR ''h'' (processed pub_class (pub_scan pc argv)) (Some ''localhost'')"
    "pub_port ctx = int_field CHR ''p'' (processed pub_class (pub_scan pc argv)) 1883"
    "pub_topic ctx = string_field CHR ''t'' (processed pub_class (pub_scan pc argv)) None"
    "pub_message ctx = string_field CHR ''m'' (processed pub_class (pub_scan pc argv)) None"
    "pub_retain ctx = (CHR ''r'' \<in> fst ` set (processed pub_class (pub_scan pc argv)))"
    by (simp_all add: pub_config_def pub_defaults_def MQTT_DEFAULT_PORT_def)
qed



lemma pub_context_init_cmd:
  assumes "pub_context_init pc argv io = Inr (ctx, io')"
  shows "first_stop pub_class (pub_scan pc argv) = Some Unknown_flag \<Longrightarrow>
           pub_cmd ctx = PUB_COMMAND_SHOW_HELP \<and> pub_exit_code ctx = EXIT_FAILURE"
    and "first_stop pub_class (pub_scan pc argv) = Some Help_flag \<Longrightarrow>
           pub_cmd ctx = PUB_COMMAND_SHOW_HELP \<and> pub_exit_code ctx = EXIT_SUCCESS"
    and "first_stop pub_class (pub_scan pc argv) \<noteq> Some Help_flag \<Longrightarrow>
         pub_topic ctx = None \<or> pub_message ctx = None \<Longrightarrow>
           pub_cmd ctx = PUB_COMMAND_SHOW_HELP \<and> pub_exit_code ctx = EXIT_FAILURE"
    and "pub_topic ctx = None \<or> pub_message ctx = None \<Longrightarrow> pub_cmd ctx = PUB_COMMAND_SHOW_HELP"
proof -
  define cfg where "cfg = pub_config pub_defaults (processed pub_class (pub_scan pc argv))"
  have e: "pub_exit_code cfg = EXIT_SUCCESS"
    by (simp add: cfg_def pub_config_def pub_defaults_def)
  note r = assms [unfolded pub_context_init_eq cfg_def [symmetric]]
  show "first_stop pub_class (pub_scan pc argv) = Some Unknown_flag \<Longrightarrow>
           pub_cmd ctx = PUB_COMMAND_SHOW_HELP \<and> pub_exit_code ctx = EXIT_FAILURE"
    using r by auto
  show "first_stop pub_class (pub_scan pc argv) = Some Help_flag \<Longrightarrow>
           pub_cmd ctx = PUB_COMMAND_SHOW_HELP \<and> pub_exit_code ctx = EXIT_SUCCESS"
    using r e by auto
  show "first_stop pub_class (pub_scan pc argv) \<noteq> Some Help_flag \<Longrightarrow>
         pub_topic ctx = None \<or> pub_message ctx = None \<Longrightarrow>
           pub_cmd ctx = PUB_COMMAND_SHOW_HELP \<and> pub_exit_code ctx = EXIT_FAILURE"
    using r by (auto split: option.splits flag_class.splits if_splits)
  show "pub_topic ctx = None \<or> pub_message ctx = None \<Longrightarrow> pub_cmd ctx = PUB_COMMAND_SHOW_HELP"
    using r by (auto split: option.splits flag_class.splits if_splits)
qed

lemma sub_context_init_config:
  assumes "sub_context_init pc argv io = Inr (ctx, io')"
  shows "\<exists>c e. ctx = (sub_config sub_defaults (processed sub_class (sub_scan pc argv)))
                         \<lparr>sub_cmd := c, sub_exit_code := e\<rparr>"
proof -
  define cfg where "cfg = sub_config sub_defaults (processed sub_class (sub_scan pc argv))"
  have a: "cfg = cfg\<lparr>sub_cmd := sub_cmd cfg, sub_exit_code := sub_exit_code cfg\<rparr>"
    by simp
  have b: "cfg\<lparr>sub_exit_code := e, sub_cmd := c\<rparr> = cfg\<lparr>sub_cmd := c, sub_exit_code := e\<rparr>"
    for c e by simp
  have c: "cfg\<lparr>sub_cmd := c\<rparr> = cfg\<lparr>sub_cmd := c, sub_exit_code := sub_exit_code cfg\<rparr>"
    for c by simp
  from assms have "ctx = cfg \<or> ctx = cfg\<lparr>sub_cmd := SUB_COMMAND_SHOW_HELP\<rparr>
      \<or> ctx = cfg\<lparr>sub_exit_code := EXIT_FAILURE, sub_cmd := SUB_COMMAND_SHOW_HELP\<rparr>"
    unfolding sub_context_init_eq cfg_def [symmetric]
    by (simp split: option.splits flag_class.splits if_splits)
  then show ?thesis
    unfolding cfg_def [symmetric] using a b c by metis
qed

lemma sub_context_init_fields:
  assumes "sub_context_init pc argv io = Inr (ctx, io')"
  shows "sub_id ctx = string_field CHR ''i'' (processed sub_class (sub_scan pc argv)) None"
    and "sub_user ctx = string_field CHR ''u'' (processed sub_class (sub_scan pc argv)) None"
    and "sub_password ctx = string_field CHR ''P'' (processed sub_class (sub_scan pc argv)) None"
    and "sub_host ctx =
           string_field CHR ''h'' (processed sub_class (sub_scan pc argv)) (Some ''localhost'')"
    and "sub_port ctx = int_field CHR ''p'' (processed sub_class (sub_scan pc argv)) 1883"
    and "sub_topic ctx = string_field CHR ''t'' (processed sub_class (sub_scan pc argv)) None"
    and "sub_retain ctx = (CHR ''r'' \<in> fst ` set (processed sub_class (sub_scan pc argv)))"
proof -
  from sub_context_init_config [OF assms] obtain c e where
    "ctx = (sub_config sub_defaults (processed sub_class (sub_scan pc argv)))
             \<lparr>sub_cmd := c, sub_exit_code := e\<rparr>"
    by blast
  then show
    "sub_id ctx = string_field CHR ''i'' (processed sub_class (sub_scan pc argv)) None"
    "sub_user ctx = string_field CHR ''u'' (processed sub_class (sub_scan pc argv)) None"
    "sub_password ctx = string_field CHR ''P'' (processed sub_class (sub_scan pc argv)) None"
    "sub_host ctx =
           string_field CHR ''h'' (processed sub_class (sub_scan pc argv)) (Some ''localhost'')"
    "sub_port ctx = int_field CHR ''p'' (processed sub_class (sub_scan pc argv)) 1883"
    "sub_topic ctx = string_field CHR ''t'' (processed sub_class (sub_scan pc argv)) None"
    "sub_retain ctx = (CHR ''r'' \<in> fst ` set (processed sub_class (sub_scan pc argv)))"
    by (simp_all add: sub_config_def sub_defaults_def MQTT_DEFAULT_PORT_def)
qed



lemma sub_context_init_cmd:
  assumes "sub_context_init pc argv io = Inr (ctx, io')"
  shows "first_stop sub_class (sub_scan pc argv) = Some Unknown_flag \<Longrightarrow>
           sub_cmd ctx = SUB_COMMAND_SHOW_HELP \<and> sub_exit_code ctx = EXIT_FAILURE"
    and "first_stop sub_class (sub_scan pc argv) = Some Help_flag \<Longrightarrow>
           sub_cmd ctx = SUB_COMMAND_SHOW_HELP \<and> sub_exit_code ctx = EXIT_SUCCESS"
    and "first_stop sub_class (sub_scan pc argv) \<noteq> Some Help_flag \<Longrightarrow>
         sub_topic ctx = None \<Longrightarrow>
           sub_cmd ctx = SUB_COMMAND_SHOW_HELP \<and> sub_exit_code ctx = EXIT_FAILURE"
    and "sub_topic ctx = None \<Longrightarrow> sub_cmd ctx = SUB_COMMAND_SHOW_HELP"
proof -
  define cfg where "cfg = sub_config sub_defaults (processed sub_class (sub_scan pc argv))"
  have e: "sub_exit_code cfg = EXIT_SUCCESS"
    by (simp add: cfg_def sub_config_def sub_defaults_def)
  note r = assms [unfolded sub_context_init_eq cfg_def [symmetric]]
  show "first_stop sub_class (sub_scan pc argv) = Some Unknown_flag \<Longrightarrow>
           sub_cmd ctx = SUB_COMMAND_SHOW_HELP \<and> sub_exit_code ctx = EXIT_FAILURE"
    using r by auto
  show "first_stop sub_class (sub_scan pc argv) = Some Help_flag \<Longrightarrow>
           sub_cmd ctx = SUB_COMMAND_SHOW_HELP \<and> sub_exit_code ctx = EXIT_SUCCESS"
    using r e by auto
  show "first_stop sub_class (sub_scan pc argv) \<noteq> Some Help_flag \<Longrightarrow>
         sub_topic ctx = None \<Longrightarrow>
           sub_cmd ctx = SUB_COMMAND_SHOW_HELP \<and> sub_exit_code ctx = EXIT_FAILURE"
    using r by (auto split: option.splits flag_class.splits if_splits)
  show "sub_topic ctx = None \<Longrightarrow> sub_cmd ctx = SUB_COMMAND_SHOW_HELP"
    using r by (auto split: option.splits flag_class.splits if_splits)
qed

section \<open>Claims about parsing\<close>

lemmas scan_defs = pub_scan_def sub_scan_def getopt_seq.simps getopt_defs pub_long_opts_def
  sub_long_opts_def

lemmas parse_defs = pub_parse_loop.simps sub_parse_loop.simps


text \<open>
  C9. When no flag for the host (\<^verbatim>\<open>'h'\<close>) and none for the port (\<^verbatim>\<open>'p'\<close>) is among
  the flags of the argument vector, the configuration \<^verbatim>\<open>context_init\<close> returns has
  host \<^verbatim>\<open>"localhost"\<close> and port 1883, in the publisher and in the subscriber.
\<close>

theorem default_host_and_port:
  "(pub_context_init pc argv io = Inr (ctx, io')
    \<and> CHR ''h'' \<notin> fst ` set (pub_scan pc argv) \<and> CHR ''p'' \<notin> fst ` set (pub_scan pc argv)
    \<longrightarrow> pub_host ctx = Some ''localhost'' \<and> pub_port ctx = 1883)
   \<and> (sub_context_init spc sargv sio = Inr (sctx, sio')
    \<and> CHR ''h'' \<notin> fst ` set (sub_scan spc sargv) \<and> CHR ''p'' \<notin> fst ` set (sub_scan spc sargv)
    \<longrightarrow> sub_host sctx = Some ''localhost'' \<and> sub_port sctx = 1883)"
proof -
  have "pub_host ctx = Some ''localhost'' \<and> pub_port ctx = 1883"
    if "pub_context_init pc argv io = Inr (ctx, io')"
      and "CHR ''h'' \<notin> fst ` set (pub_scan pc argv)"
      and "CHR ''p'' \<notin> fst ` set (pub_scan pc argv)"
    using pub_context_init_fields(4,5) [OF that(1)] that(2,3)
    by (simp add: string_field_absent int_field_absent processed_flags)
  moreover have "sub_host sctx = Some ''localhost'' \<and> sub_port sctx = 1883"
    if "sub_context_init spc sargv sio = Inr (sctx, sio')"
      and "CHR ''h'' \<notin> fst ` set (sub_scan spc sargv)"
      and "CHR ''p'' \<notin> fst ` set (sub_scan spc sargv)"
    using sub_context_init_fields(4,5) [OF that(1)] that(2,3)
    by (simp add: string_field_absent int_field_absent processed_flags)
  ultimately show ?thesis by blast
qed

theorem default_host_and_port_witness:
  "pub_context_init False [''mqtt_pub'', ''-t'', ''test'', ''-m'', ''hello''] io0 =
     Inr (\<lparr>pub_id = None, pub_user = None, pub_password = None,
           pub_host = Some ''localhost'', pub_port = 1883, pub_topic = Some ''test'',
           pub_message = Some ''hello'', pub_retain = False, pub_cmd = COMMAND_PUB,
           pub_exit_code = 0\<rparr>, io0)
   \<and> CHR ''h'' \<notin> fst ` set (pub_scan False [''mqtt_pub'', ''-t'', ''test'', ''-m'', ''hello''])
   \<and> CHR ''p'' \<notin> fst ` set (pub_scan False [''mqtt_pub'', ''-t'', ''test'', ''-m'', ''hello''])
   \<and> sub_context_init False [''mqtt_sub'', ''-r'', ''-t'', ''test''] io0 =
     Inr (\<lparr>sub_id = None, sub_user = None, sub_password = None,
           sub_host = Some ''localhost'', sub_port = 1883, sub_topic = Some ''test'',
           sub_retain = True, sub_cmd = COMMAND_SUB, sub_exit_code = 0\<rparr>, io0)
   \<and> CHR ''h'' \<notin> fst ` set (sub_scan False [''mqtt_sub'', ''-r'', ''-t'', ''test''])
   \<and> CHR ''p'' \<notin> fst ` set (sub_scan False [''mqtt_sub'', ''-r'', ''-t'', ''test''])"
proof -
  have p: "pub_context_init False [''mqtt_pub'', ''-t'', ''test'', ''-m'', ''hello''] io0 =
     Inr (\<lparr>pub_id = None, pub_user = None, pub_password = None,
           pub_host = Some ''localhost'', pub_port = 1883, pub_topic = Some ''test'',
           pub_message = Some ''hello'', pub_retain = False, pub_cmd = COMMAND_PUB,
           pub_exit_code = 0\<rparr>, io0)"
    by (simp add: pub_defs parse_defs getopt_defs const_defs io_defs)
  have ps: "pub_scan False [''mqtt_pub'', ''-t'', ''test'', ''-m'', ''hello''] =
              [(CHR ''t'', Some ''test''), (CHR ''m'', Some ''hello'')]"
    by (simp add: scan_defs)
  have s: "sub_context_init False [''mqtt_sub'', ''-r'', ''-t'', ''test''] io0 =
     Inr (\<lparr>sub_id = None, sub_user = None, sub_password = None,
           sub_host = Some ''localhost'', sub_port = 1883, sub_topic = Some ''test'',
           sub_retain = True, sub_cmd = COMMAND_SUB, sub_exit_code = 0\<rparr>, io0)"
    by (simp add: sub_defs parse_defs getopt_defs const_defs io_defs)
  have ss: "sub_scan False [''mqtt_sub'', ''-r'', ''-t'', ''test''] =
              [(CHR ''r'', None), (CHR ''t'', Some ''test'')]"
    by (simp add: scan_defs)
  from default_host_and_port
    [where pc = False and argv = "[''mqtt_pub'', ''-t'', ''test'', ''-m'', ''hello'']"
       and io = io0 and spc = False and sargv = "[''mqtt_sub'', ''-r'', ''-t'', ''test'']"
       and sio = io0]
    p ps s ss
  show ?thesis by simp
qed

text \<open>
  C1, as the code has it. Whenever \<^verbatim>\<open>context_init\<close> returns a configuration: if the
  topic is missing (in the publisher: the topic or the message), or the parser met an
  unknown flag, the action is show-usage; if the parser met an unknown flag, or a
  required field is missing and the parser did not stop at the help flag, the action is
  show-usage and the exit status is failure; and if the parser stopped at the help flag,
  the action is show-usage and the exit status is success, whether or not a required
  field is missing. The parser meets an unknown flag when the first flag that is not
  handled is an unknown one, and stops at the help flag when that flag is the help flag.
\<close>

theorem usage_and_failure:
  "(pub_context_init pc argv io = Inr (ctx, io') \<longrightarrow>
      (pub_topic ctx = None \<or> pub_message ctx = None
         \<or> first_stop pub_class (pub_scan pc argv) = Some Unknown_flag
       \<longrightarrow> pub_cmd ctx = PUB_COMMAND_SHOW_HELP)
    \<and> (first_stop pub_class (pub_scan pc argv) = Some Unknown_flag
         \<or> first_stop pub_class (pub_scan pc argv) \<noteq> Some Help_flag
            \<and> (pub_topic ctx = None \<or> pub_message ctx = None)
       \<longrightarrow> pub_cmd ctx = PUB_COMMAND_SHOW_HELP \<and> pub_exit_code ctx = EXIT_FAILURE)
    \<and> (first_stop pub_class (pub_scan pc argv) = Some Help_flag
       \<longrightarrow> pub_cmd ctx = PUB_COMMAND_SHOW_HELP \<and> pub_exit_code ctx = EXIT_SUCCESS))
   \<and> (sub_context_init spc sargv sio = Inr (sctx, sio') \<longrightarrow>
      (sub_topic sctx = None \<or> first_stop sub_class (sub_scan spc sargv) = Some Unknown_flag
       \<longrightarrow> sub_cmd sctx = SUB_COMMAND_SHOW_HELP)
    \<and> (first_stop sub_class (sub_scan spc sargv) = Some Unknown_flag
         \<or> first_stop sub_class (sub_scan spc sargv) \<noteq> Some Help_flag \<and> sub_topic sctx = None
       \<longrightarrow> sub_cmd sctx = SUB_COMMAND_SHOW_HELP \<and> sub_exit_code sctx = EXIT_FAILURE)
    \<and> (first_stop sub_class (sub_scan spc sargv) = Some Help_flag
       \<longrightarrow> sub_cmd sctx = SUB_COMMAND_SHOW_HELP \<and> sub_exit_code sctx = EXIT_SUCCESS))"
proof -
  have "(pub_topic ctx = None \<or> pub_message ctx = None
         \<or> first_stop pub_class (pub_scan pc argv) = Some Unknown_flag
       \<longrightarrow> pub_cmd ctx = PUB_COMMAND_SHOW_HELP)
    \<and> (first_stop pub_class (pub_scan pc argv) = Some Unknown_flag
         \<or> first_stop pub_class (pub_scan pc argv) \<noteq> Some Help_flag
            \<and> (pub_topic ctx = None \<or> pub_message ctx = None)
       \<longrightarrow> pub_cmd ctx = PUB_COMMAND_SHOW_HELP \<and> pub_exit_code ctx = EXIT_FAILURE)
    \<and> (first_stop pub_class (pub_scan pc argv) = Some Help_flag
       \<longrightarrow> pub_cmd ctx = PUB_COMMAND_SHOW_HELP \<and> pub_exit_code ctx = EXIT_SUCCESS)"
    if "pub_context_init pc argv io = Inr (ctx, io')"
    using pub_context_init_cmd [OF that] by blast
  moreover have "(sub_topic sctx = None
         \<or> first_stop sub_class (sub_scan spc sargv) = Some Unknown_flag
       \<longrightarrow> sub_cmd sctx = SUB_COMMAND_SHOW_HELP)
    \<and> (first_stop sub_class (sub_scan spc sargv) = Some Unknown_flag
         \<or> first_stop sub_class (sub_scan spc sargv) \<noteq> Some Help_flag \<and> sub_topic sctx = None
       \<longrightarrow> sub_cmd sctx = SUB_COMMAND_SHOW_HELP \<and> sub_exit_code sctx = EXIT_FAILURE)
    \<and> (first_stop sub_class (sub_scan spc sargv) = Some Help_flag
       \<longrightarrow> sub_cmd sctx = SUB_COMMAND_SHOW_HELP \<and> sub_exit_code sctx = EXIT_SUCCESS)"
    if "sub_context_init spc sargv sio = Inr (sctx, sio')"
    using sub_context_init_cmd [OF that] by blast
  ultimately show ?thesis by blast
qed

theorem usage_and_failure_witness:
  "pub_context_init False [''mqtt_pub'', ''-t'', ''test'', ''-x'', ''-m'', ''hello''] io0 =
     Inr (\<lparr>pub_id = None, pub_user = None, pub_password = None,
           pub_host = Some ''localhost'', pub_port = 1883, pub_topic = Some ''test'',
           pub_message = None, pub_retain = False, pub_cmd = PUB_COMMAND_SHOW_HELP,
           pub_exit_code = EXIT_FAILURE\<rparr>,
          \<lparr>calls = [], stdout = [], stderr = [''error: unknown option'']\<rparr>)
   \<and> first_stop pub_class (pub_scan False [''mqtt_pub'', ''-t'', ''test'', ''-x'', ''-m'', ''hello''])
       = Some Unknown_flag
   \<and> sub_context_init False [''mqtt_sub'', ''-r''] io0 =
     Inr (\<lparr>sub_id = None, sub_user = None, sub_password = None,
           sub_host = Some ''localhost'', sub_port = 1883, sub_topic = None,
           sub_retain = True, sub_cmd = SUB_COMMAND_SHOW_HELP,
           sub_exit_code = EXIT_FAILURE\<rparr>,
          \<lparr>calls = [], stdout = [], stderr = [''error: missing topic'']\<rparr>)
   \<and> first_stop sub_class (sub_scan False [''mqtt_sub'', ''-r'']) \<noteq> Some Help_flag
   \<and> pub_context_init False [''mqtt_pub'', ''-r'', ''-H''] io0 =
     Inr (\<lparr>pub_id = None, pub_user = None, pub_password = None,
           pub_host = Some ''localhost'', pub_port = 1883, pub_topic = None,
           pub_message = None, pub_retain = True, pub_cmd = PUB_COMMAND_SHOW_HELP,
           pub_exit_code = EXIT_SUCCESS\<rparr>, io0)
   \<and> first_stop pub_class (pub_scan False [''mqtt_pub'', ''-r'', ''-H'']) = Some Help_flag
   \<and> sub_context_init False [''mqtt_sub'', ''-t'', ''test'', ''--help''] io0 =
     Inr (\<lparr>sub_id = None, sub_user = None, sub_password = None,
           sub_host = Some ''localhost'', sub_port = 1883, sub_topic = Some ''test'',
           sub_retain = False, sub_cmd = SUB_COMMAND_SHOW_HELP,
           sub_exit_code = EXIT_SUCCESS\<rparr>, io0)
   \<and> first_stop sub_class (sub_scan False [''mqtt_sub'', ''-t'', ''test'', ''--help''])
       = Some Help_flag"
proof -
  have p: "pub_context_init False [''mqtt_pub'', ''-t'', ''test'', ''-x'', ''-m'', ''hello''] io0 =
     Inr (\<lparr>pub_id = None, pub_user = None, pub_password = None,
           pub_host = Some ''localhost'', pub_port = 1883, pub_topic = Some ''test'',
           pub_message = None, pub_retain = False, pub_cmd = PUB_COMMAND_SHOW_HELP,
           pub_exit_code = EXIT_FAILURE\<rparr>,
          \<lparr>calls = [], stdout = [], stderr = [''error: unknown option'']\<rparr>)"
    by (simp add: pub_defs parse_defs getopt_defs const_defs io_defs)
  have ps: "first_stop pub_class
              (pub_scan False [''mqtt_pub'', ''-t'', ''test'', ''-x'', ''-m'', ''hello''])
            = Some Unknown_flag"
    by (simp add: scan_defs first_stop_def pub_class_def)
  have s: "sub_context_init False [''mqtt_sub'', ''-r''] io0 =
     Inr (\<lparr>sub_id = None, sub_user = None, sub_password = None,
           sub_host = Some ''localhost'', sub_port = 1883, sub_topic = None,
           sub_retain = True, sub_cmd = SUB_COMMAND_SHOW_HELP,
           sub_exit_code = EXIT_FAILURE\<rparr>,
          \<lparr>calls = [], stdout = [], stderr = [''error: missing topic'']\<rparr>)"
    by (simp add: sub_defs parse_defs getopt_defs const_defs io_defs)
  have ss: "first_stop sub_class (sub_scan False [''mqtt_sub'', ''-r'']) \<noteq> Some Help_flag"
    by (simp add: scan_defs first_stop_def sub_class_def)
  have ph: "pub_context_init False [''mqtt_pub'', ''-r'', ''-H''] io0 =
     Inr (\<lparr>pub_id = None, pub_user = None, pub_password = None,
           pub_host = Some ''localhost'', pub_port = 1883, pub_topic = None,
           pub_message = None, pub_retain = True, pub_cmd = PUB_COMMAND_SHOW_HELP,
           pub_exit_code = EXIT_SUCCESS\<rparr>, io0)"
    by (simp add: pub_defs parse_defs getopt_defs const_defs io_defs)
  have phs: "first_stop pub_class (pub_scan False [''mqtt_pub'', ''-r'', ''-H''])
             = Some Help_flag"
    by (simp add: scan_defs first_stop_def pub_class_def)
  have sh: "sub_context_init False [''mqtt_sub'', ''-t'', ''test'', ''--help''] io0 =
     Inr (\<lparr>sub_id = None, sub_user = None, sub_password = None,
           sub_host = Some ''localhost'', sub_port = 1883, sub_topic = Some ''test'',
           sub_retain = False, sub_cmd = SUB_COMMAND_SHOW_HELP,
           sub_exit_code = EXIT_SUCCESS\<rparr>, io0)"
    by (simp add: sub_defs parse_defs getopt_defs const_defs io_defs)
  have shs: "first_stop sub_class (sub_scan False [''mqtt_sub'', ''-t'', ''test'', ''--help''])
             = Some Help_flag"
    by (simp add: scan_defs first_stop_def sub_class_def)
  note t1 = usage_and_failure
    [where pc = False and argv = "[''mqtt_pub'', ''-t'', ''test'', ''-x'', ''-m'', ''hello'']"
       and io = io0 and spc = False and sargv = "[''mqtt_sub'', ''-r'']" and sio = io0]
  note t2 = usage_and_failure
    [where pc = False and argv = "[''mqtt_pub'', ''-r'', ''-H'']"
       and io = io0 and spc = False and sargv = "[''mqtt_sub'', ''-t'', ''test'', ''--help'']"
       and sio = io0]
  from t1 t2 p ps s ss ph phs sh shs show ?thesis
    by simp
qed

text \<open>
  The claim as stated, without the exception for the help flag, fails: with \<^verbatim>\<open>-H\<close>
  alone the topic (and the message) is missing, and the exit status is success.
\<close>

theorem help_without_topic_exits_0:
  "pub_context_init False [''mqtt_pub'', ''-H''] io0 =
     Inr (\<lparr>pub_id = None, pub_user = None, pub_password = None,
           pub_host = Some ''localhost'', pub_port = 1883, pub_topic = None,
           pub_message = None, pub_retain = False, pub_cmd = PUB_COMMAND_SHOW_HELP,
           pub_exit_code = EXIT_SUCCESS\<rparr>, io0)
   \<and> sub_context_init False [''mqtt_sub'', ''-H''] io0 =
     Inr (\<lparr>sub_id = None, sub_user = None, sub_password = None,
           sub_host = Some ''localhost'', sub_port = 1883, sub_topic = None,
           sub_retain = False, sub_cmd = SUB_COMMAND_SHOW_HELP,
           sub_exit_code = EXIT_SUCCESS\<rparr>, io0)
   \<and> EXIT_SUCCESS \<noteq> EXIT_FAILURE"
  by (simp add: pub_defs sub_defs parse_defs getopt_defs const_defs io_defs)




lemma string_field_mset:
  "mset rs' = mset rs \<Longrightarrow> distinct (map fst rs) \<Longrightarrow> string_field x rs' d = string_field x rs d"
  using last_optarg_mset [of rs rs' x] by (simp add: string_field_def)

lemma int_field_mset:
  "mset rs' = mset rs \<Longrightarrow> distinct (map fst rs) \<Longrightarrow> int_field x rs' d = int_field x rs d"
  using last_optarg_mset [of rs rs' x] by (simp add: int_field_def)

lemma pub_config_mset:
  assumes "mset rs' = mset rs" and "distinct (map fst rs)"
  shows "pub_config ctx rs' = pub_config ctx rs"
proof -
  from assms(1) have s: "set rs' = set rs"
    by (rule mset_eq_setD)
  show ?thesis
    unfolding pub_config_def
    by (simp only: string_field_mset [OF assms] int_field_mset [OF assms] s)
qed

lemma sub_config_mset:
  assumes "mset rs' = mset rs" and "distinct (map fst rs)"
  shows "sub_config ctx rs' = sub_config ctx rs"
proof -
  from assms(1) have s: "set rs' = set rs"
    by (rule mset_eq_setD)
  show ?thesis
    unfolding sub_config_def
    by (simp only: string_field_mset [OF assms] int_field_mset [OF assms] s)
qed

lemma all_Handled_mset:
  assumes "mset rs' = mset rs" and "list_all (\<lambda>r. cls r = Handled) rs"
  shows "list_all (\<lambda>r. cls r = Handled) rs'"
proof -
  from assms(1) have "set rs' = set rs"
    by (rule mset_eq_setD)
  with assms(2) show ?thesis
    by (simp add: list_all_iff)
qed

lemma pub_order_independent:
  assumes "list_all (\<lambda>r. pub_class r = Handled) (pub_scan pc argv)"
    and "mset (pub_scan pc' argv') = mset (pub_scan pc argv)"
    and "distinct (map fst (pub_scan pc argv))"
  shows "pub_context_init pc' argv' io = pub_context_init pc argv io"
proof -
  note h = all_Handled_mset [OF assms(2) assms(1)]
  show ?thesis
    unfolding pub_context_init_eq
    by (simp add: first_stop_all_Handled [OF assms(1)] first_stop_all_Handled [OF h]
        processed_all_Handled [OF assms(1)] processed_all_Handled [OF h]
        pub_config_mset [OF assms(2,3)])
qed

lemma sub_order_independent:
  assumes "list_all (\<lambda>r. sub_class r = Handled) (sub_scan pc argv)"
    and "mset (sub_scan pc' argv') = mset (sub_scan pc argv)"
    and "distinct (map fst (sub_scan pc argv))"
  shows "sub_context_init pc' argv' io = sub_context_init pc argv io"
proof -
  note h = all_Handled_mset [OF assms(2) assms(1)]
  show ?thesis
    unfolding sub_context_init_eq
    by (simp add: first_stop_all_Handled [OF assms(1)] first_stop_all_Handled [OF h]
        processed_all_Handled [OF assms(1)] processed_all_Handled [OF h]
        sub_config_mset [OF assms(2,3)])
qed

text \<open>
  C5, as the code has it. Parsing stops at the first flag that is not handled (the help
  flag or an unknown flag); \<open>processed\<close> are the flags before it. Every field of the
  configuration \<^verbatim>\<open>context_init\<close> returns holds the argument of the last occurrence of
  its flag among the processed flags, and its default when the flag does not occur there
  (\<open>string_field\<close>; \<open>int_field\<close> for the port, which is \<^verbatim>\<open>atoi\<close> of that argument;
  retain is set when \<^verbatim>\<open>-r\<close> occurs). When all flags of an argument vector are handled
  and no flag occurs twice, an argument vector with the same flags in another order gives
  the same result.
\<close>

theorem last_occurrence_wins:
  "(pub_context_init pc argv io = Inr (ctx, io') \<longrightarrow>
      pub_id ctx = string_field CHR ''i'' (processed pub_class (pub_scan pc argv)) None
    \<and> pub_user ctx = string_field CHR ''u'' (processed pub_class (pub_scan pc argv)) None
    \<and> pub_password ctx = string_field CHR ''P'' (processed pub_class (pub_scan pc argv)) None
    \<and> pub_host ctx =
        string_field CHR ''h'' (processed pub_class (pub_scan pc argv)) (Some ''localhost'')
    \<and> pub_port ctx = int_field CHR ''p'' (processed pub_class (pub_scan pc argv)) 1883
    \<and> pub_topic ctx = string_field CHR ''t'' (processed pub_class (pub_scan pc argv)) None
    \<and> pub_message ctx = string_field CHR ''m'' (processed pub_class (pub_scan pc argv)) None
    \<and> pub_retain ctx = (CHR ''r'' \<in> fst ` set (processed pub_class (pub_scan pc argv))))
   \<and> (list_all (\<lambda>r. pub_class r = Handled) (pub_scan qc qargv)
      \<and> mset (pub_scan qc' qargv') = mset (pub_scan qc qargv)
      \<and> distinct (map fst (pub_scan qc qargv))
      \<longrightarrow> pub_context_init qc' qargv' qio = pub_context_init qc qargv qio)
   \<and> (sub_context_init spc sargv sio = Inr (sctx, sio') \<longrightarrow>
      sub_id sctx = string_field CHR ''i'' (processed sub_class (sub_scan spc sargv)) None
    \<and> sub_user sctx = string_field CHR ''u'' (processed sub_class (sub_scan spc sargv)) None
    \<and> sub_password sctx = string_field CHR ''P'' (processed sub_class (sub_scan spc sargv)) None
    \<and> sub_host sctx =
        string_field CHR ''h'' (processed sub_class (sub_scan spc sargv)) (Some ''localhost'')
    \<and> sub_port sctx = int_field CHR ''p'' (processed sub_class (sub_scan spc sargv)) 1883
    \<and> sub_topic sctx = string_field CHR ''t'' (processed sub_class (sub_scan spc sargv)) None
    \<and> sub_retain sctx = (CHR ''r'' \<in> fst ` set (processed sub_class (sub_scan spc sargv))))
   \<and> (list_all (\<lambda>r. sub_class r = Handled) (sub_scan tc targv)
      \<and> mset (sub_scan tc' targv') = mset (sub_scan tc targv)
      \<and> distinct (map fst (sub_scan tc targv))
      \<longrightarrow> sub_context_init tc' targv' tio = sub_context_init tc targv tio)"
proof -
  have a: "pub_context_init pc argv io = Inr (ctx, io') \<longrightarrow>
      pub_id ctx = string_field CHR ''i'' (processed pub_class (pub_scan pc argv)) None
    \<and> pub_user ctx = string_field CHR ''u'' (processed pub_class (pub_scan pc argv)) None
    \<and> pub_password ctx = string_field CHR ''P'' (processed pub_class (pub_scan pc argv)) None
    \<and> pub_host ctx =
        string_field CHR ''h'' (processed pub_class (pub_scan pc argv)) (Some ''localhost'')
    \<and> pub_port ctx = int_field CHR ''p'' (processed pub_class (pub_scan pc argv)) 1883
    \<and> pub_topic ctx = string_field CHR ''t'' (processed pub_class (pub_scan pc argv)) None
    \<and> pub_message ctx = string_field CHR ''m'' (processed pub_class (pub_scan pc argv)) None
    \<and> pub_retain ctx = (CHR ''r'' \<in> fst ` set (processed pub_class (pub_scan pc argv)))"
  proof
    assume i: "pub_context_init pc argv io = Inr (ctx, io')"
    note f = pub_context_init_fields [OF i]
    show "pub_id ctx = string_field CHR ''i'' (processed pub_class (pub_scan pc argv)) None
    \<and> pub_user ctx = string_field CHR ''u'' (processed pub_class (pub_scan pc argv)) None
    \<and> pub_password ctx = string_field CHR ''P'' (processed pub_class (pub_scan pc argv)) None
    \<and> pub_host ctx =
        string_field CHR ''h'' (processed pub_class (pub_scan pc argv)) (Some ''localhost'')
    \<and> pub_port ctx = int_field CHR ''p'' (processed pub_class (pub_scan pc argv)) 1883
    \<and> pub_topic ctx = string_field CHR ''t'' (processed pub_class (pub_scan pc argv)) None
    \<and> pub_message ctx = string_field CHR ''m'' (processed pub_class (pub_scan pc argv)) None
    \<and> pub_retain ctx = (CHR ''r'' \<in> fst ` set (processed pub_class (pub_scan pc argv)))"
      by (intro conjI) (rule f)+
  qed
  have b: "list_all (\<lambda>r. pub_class r = Handled) (pub_scan qc qargv)
      \<and> mset (pub_scan qc' qargv') = mset (pub_scan qc qargv)
      \<and> distinct (map fst (pub_scan qc qargv))
      \<longrightarrow> pub_context_init qc' qargv' qio = pub_context_init qc qargv qio"
    using pub_order_independent [of qc qargv qc' qargv' qio] by blast
  have c: "sub_context_init spc sargv sio = Inr (sctx, sio') \<longrightarrow>
      sub_id sctx = string_field CHR ''i'' (processed sub_class (sub_scan spc sargv)) None
    \<and> sub_user sctx = string_field CHR ''u'' (processed sub_class (sub_scan spc sargv)) None
    \<and> sub_password sctx = string_field CHR ''P'' (processed sub_class (sub_scan spc sargv)) None
    \<and> sub_host sctx =
        string_field CHR ''h'' (processed sub_class (sub_scan spc sargv)) (Some ''localhost'')
    \<and> sub_port sctx = int_field CHR ''p'' (processed sub_class (sub_scan spc sargv)) 1883
    \<and> sub_topic sctx = string_field CHR ''t'' (processed sub_class (sub_scan spc sargv)) None
    \<and> sub_retain sctx = (CHR ''r'' \<in> fst ` set (processed sub_class (sub_scan spc sargv)))"
  proof
    assume i: "sub_context_init spc sargv sio = Inr (sctx, sio')"
    note f = sub_context_init_fields [OF i]
    show "sub_id sctx = string_field CHR ''i'' (processed sub_class (sub_scan spc sargv)) None
    \<and> sub_user sctx = string_field CHR ''u'' (processed sub_class (sub_scan spc sargv)) None
    \<and> sub_password sctx = string_field CHR ''P'' (processed sub_class (sub_scan spc sargv)) None
    \<and> sub_host sctx =
        string_field CHR ''h'' (processed sub_class (sub_scan spc sargv)) (Some ''localhost'')
    \<and> sub_port sctx = int_field CHR ''p'' (processed sub_class (sub_scan spc sargv)) 1883
    \<and> sub_topic sctx = string_field CHR ''t'' (processed sub_class (sub_scan spc sargv)) None
    \<and> sub_retain sctx = (CHR ''r'' \<in> fst ` set (processed sub_class (sub_scan spc sargv)))"
      by (intro conjI) (rule f)+
  qed
  have d: "list_all (\<lambda>r. sub_class r = Handled) (sub_scan tc targv)
      \<and> mset (sub_scan tc' targv') = mset (sub_scan tc targv)
      \<and> distinct (map fst (sub_scan tc targv))
      \<longrightarrow> sub_context_init tc' targv' tio = sub_context_init tc targv tio"
    using sub_order_independent [of tc targv tc' targv' tio] by blast
  show ?thesis
    by (rule conjI [OF a conjI [OF b conjI [OF c d]]])
qed


theorem last_occurrence_wins_witness:
  "pub_context_init False [''mqtt_pub'', ''-t'', ''a'', ''-m'', ''x'', ''-t'', ''b''] io0 =
     Inr (\<lparr>pub_id = None, pub_user = None, pub_password = None,
           pub_host = Some ''localhost'', pub_port = 1883, pub_topic = Some ''b'',
           pub_message = Some ''x'', pub_retain = False, pub_cmd = COMMAND_PUB,
           pub_exit_code = 0\<rparr>, io0)
   \<and> string_field CHR ''t''
        (processed pub_class (pub_scan False [''mqtt_pub'', ''-t'', ''a'', ''-m'', ''x'', ''-t'', ''b'']))
        None = Some ''b''
   \<and> list_all (\<lambda>r. pub_class r = Handled) (pub_scan False [''mqtt_pub'', ''-t'', ''a'', ''-m'', ''x''])
   \<and> mset (pub_scan False [''mqtt_pub'', ''-m'', ''x'', ''-t'', ''a''])
       = mset (pub_scan False [''mqtt_pub'', ''-t'', ''a'', ''-m'', ''x''])
   \<and> distinct (map fst (pub_scan False [''mqtt_pub'', ''-t'', ''a'', ''-m'', ''x'']))
   \<and> pub_context_init False [''mqtt_pub'', ''-m'', ''x'', ''-t'', ''a''] io0
       = pub_context_init False [''mqtt_pub'', ''-t'', ''a'', ''-m'', ''x''] io0
   \<and> sub_context_init False [''mqtt_sub'', ''-p'', ''1'', ''-t'', ''a'', ''-p'', ''2''] io0 =
     Inr (\<lparr>sub_id = None, sub_user = None, sub_password = None,
           sub_host = Some ''localhost'', sub_port = 2, sub_topic = Some ''a'',
           sub_retain = False, sub_cmd = COMMAND_SUB, sub_exit_code = 0\<rparr>, io0)
   \<and> int_field CHR ''p''
        (processed sub_class (sub_scan False [''mqtt_sub'', ''-p'', ''1'', ''-t'', ''a'', ''-p'', ''2'']))
        1883 = 2
   \<and> list_all (\<lambda>r. sub_class r = Handled) (sub_scan False [''mqtt_sub'', ''-t'', ''a'', ''-r''])
   \<and> mset (sub_scan False [''mqtt_sub'', ''-r'', ''-t'', ''a''])
       = mset (sub_scan False [''mqtt_sub'', ''-t'', ''a'', ''-r''])
   \<and> distinct (map fst (sub_scan False [''mqtt_sub'', ''-t'', ''a'', ''-r'']))
   \<and> sub_context_init False [''mqtt_sub'', ''-r'', ''-t'', ''a''] io0
       = sub_context_init False [''mqtt_sub'', ''-t'', ''a'', ''-r''] io0"
proof -
  have p1: "pub_context_init False [''mqtt_pub'', ''-t'', ''a'', ''-m'', ''x'', ''-t'', ''b''] io0 =
     Inr (\<lparr>pub_id = None, pub_user = None, pub_password = None,
           pub_host = Some ''localhost'', pub_port = 1883, pub_topic = Some ''b'',
           pub_message = Some ''x'', pub_retain = False, pub_cmd = COMMAND_PUB,
           pub_exit_code = 0\<rparr>, io0)"
    by (simp add: pub_defs parse_defs getopt_defs const_defs io_defs)
  have p2: "pub_scan False [''mqtt_pub'', ''-t'', ''a'', ''-m'', ''x''] =
              [(CHR ''t'', Some ''a''), (CHR ''m'', Some ''x'')]"
    by (simp add: scan_defs)
  have p3: "pub_scan False [''mqtt_pub'', ''-m'', ''x'', ''-t'', ''a''] =
              [(CHR ''m'', Some ''x''), (CHR ''t'', Some ''a'')]"
    by (simp add: scan_defs)
  have p4: "list_all (\<lambda>r. pub_class r = Handled) [(CHR ''t'', Some ''a''), (CHR ''m'', Some ''x'')]"
    by (simp add: pub_class_def)
  have p5: "mset [(CHR ''m'', Some ''x''), (CHR ''t'', Some ''a'')]
            = mset [(CHR ''t'', Some ''a''), (CHR ''m'', Some ''x'')]"
    by simp
  have p6: "distinct (map fst [(CHR ''t'', Some ''a''), (CHR ''m'', Some ''x'')])"
    by simp
  have s1: "sub_context_init False [''mqtt_sub'', ''-p'', ''1'', ''-t'', ''a'', ''-p'', ''2''] io0 =
     Inr (\<lparr>sub_id = None, sub_user = None, sub_password = None,
           sub_host = Some ''localhost'', sub_port = 2, sub_topic = Some ''a'',
           sub_retain = False, sub_cmd = COMMAND_SUB, sub_exit_code = 0\<rparr>, io0)"
    by (simp add: sub_defs parse_defs getopt_defs const_defs io_defs atoi_def strtol10_def
        isspace_def isdigit_def)
  have s2: "sub_scan False [''mqtt_sub'', ''-t'', ''a'', ''-r''] =
              [(CHR ''t'', Some ''a''), (CHR ''r'', None)]"
    by (simp add: scan_defs)
  have s3: "sub_scan False [''mqtt_sub'', ''-r'', ''-t'', ''a''] =
              [(CHR ''r'', None), (CHR ''t'', Some ''a'')]"
    by (simp add: scan_defs)
  have s4: "list_all (\<lambda>r. sub_class r = Handled) [(CHR ''t'', Some ''a''), (CHR ''r'', None)]"
    by (simp add: sub_class_def)
  have s5: "mset [(CHR ''r'', None), (CHR ''t'', Some ''a'')]
            = mset [(CHR ''t'', Some ''a''), (CHR ''r'', None :: string option)]"
    by simp
  have s6: "distinct (map fst [(CHR ''t'', Some ''a''), (CHR ''r'', None :: string option)])"
    by simp
  have p7: "string_field CHR ''t''
        (processed pub_class (pub_scan False [''mqtt_pub'', ''-t'', ''a'', ''-m'', ''x'', ''-t'', ''b'']))
        None = Some ''b''"
    by (simp add: scan_defs processed_def pub_class_def string_field_def last_optarg_def)
  have s7: "int_field CHR ''p''
        (processed sub_class (sub_scan False [''mqtt_sub'', ''-p'', ''1'', ''-t'', ''a'', ''-p'', ''2'']))
        1883 = 2"
    by (simp add: scan_defs processed_def sub_class_def int_field_def last_optarg_def
        atoi_def strtol10_def isspace_def isdigit_def)
  note t = last_occurrence_wins
    [where pc = False and argv = "[''mqtt_pub'', ''-t'', ''a'', ''-m'', ''x'', ''-t'', ''b'']"
       and io = io0 and io' = io0
       and ctx = "\<lparr>pub_id = None, pub_user = None, pub_password = None,
           pub_host = Some ''localhost'', pub_port = 1883, pub_topic = Some ''b'',
           pub_message = Some ''x'', pub_retain = False, pub_cmd = COMMAND_PUB,
           pub_exit_code = 0\<rparr>"
       and qc = False and qargv = "[''mqtt_pub'', ''-t'', ''a'', ''-m'', ''x'']"
       and qc' = False and qargv' = "[''mqtt_pub'', ''-m'', ''x'', ''-t'', ''a'']" and qio = io0
       and spc = False and sargv = "[''mqtt_sub'', ''-p'', ''1'', ''-t'', ''a'', ''-p'', ''2'']"
       and sio = io0 and sio' = io0
       and sctx = "\<lparr>sub_id = None, sub_user = None, sub_password = None,
           sub_host = Some ''localhost'', sub_port = 2, sub_topic = Some ''a'',
           sub_retain = False, sub_cmd = COMMAND_SUB, sub_exit_code = 0\<rparr>"
       and tc = False and targv = "[''mqtt_sub'', ''-t'', ''a'', ''-r'']"
       and tc' = False and targv' = "[''mqtt_sub'', ''-r'', ''-t'', ''a'']" and tio = io0]
  from t p1 p4 p5 p6 p7 s1 s4 s5 s6 s7 show ?thesis
    unfolding p2 p3 s2 s3 by simp
qed

text \<open>
  The claim as stated fails where parsing stops early: in \<^verbatim>\<open>-t a -H -t b\<close> the last
  occurrence of \<^verbatim>\<open>-t\<close> has the value \<^verbatim>\<open>b\<close>, and the configuration records \<^verbatim>\<open>a\<close>;
  \<^verbatim>\<open>-H -t a\<close> and \<^verbatim>\<open>-t a -H\<close> hold the same flags once each and give different
  configurations.
\<close>

theorem flag_after_help_not_recorded:
  "pub_scan False [''mqtt_pub'', ''-t'', ''a'', ''-H'', ''-t'', ''b''] =
     [(CHR ''t'', Some ''a''), (CHR ''H'', None), (CHR ''t'', Some ''b'')]
   \<and> last_optarg CHR ''t'' [(CHR ''t'', Some ''a''), (CHR ''H'', None), (CHR ''t'', Some ''b'')]
       = Some (Some ''b'')
   \<and> pub_context_init False [''mqtt_pub'', ''-t'', ''a'', ''-H'', ''-t'', ''b''] io0 =
     Inr (\<lparr>pub_id = None, pub_user = None, pub_password = None,
           pub_host = Some ''localhost'', pub_port = 1883, pub_topic = Some ''a'',
           pub_message = None, pub_retain = False, pub_cmd = PUB_COMMAND_SHOW_HELP,
           pub_exit_code = 0\<rparr>, io0)
   \<and> pub_context_init False [''mqtt_pub'', ''-H'', ''-t'', ''a''] io0 =
     Inr (\<lparr>pub_id = None, pub_user = None, pub_password = None,
           pub_host = Some ''localhost'', pub_port = 1883, pub_topic = None,
           pub_message = None, pub_retain = False, pub_cmd = PUB_COMMAND_SHOW_HELP,
           pub_exit_code = 0\<rparr>, io0)
   \<and> pub_context_init False [''mqtt_pub'', ''-t'', ''a'', ''-H''] io0 =
     Inr (\<lparr>pub_id = None, pub_user = None, pub_password = None,
           pub_host = Some ''localhost'', pub_port = 1883, pub_topic = Some ''a'',
           pub_message = None, pub_retain = False, pub_cmd = PUB_COMMAND_SHOW_HELP,
           pub_exit_code = 0\<rparr>, io0)"
proof -
  have "pub_scan False [''mqtt_pub'', ''-t'', ''a'', ''-H'', ''-t'', ''b''] =
     [(CHR ''t'', Some ''a''), (CHR ''H'', None), (CHR ''t'', Some ''b'')]"
    by (simp add: scan_defs)
  moreover have "last_optarg CHR ''t''
       [(CHR ''t'', Some ''a''), (CHR ''H'', None), (CHR ''t'', Some ''b'')] = Some (Some ''b'')"
    by (simp add: last_optarg_def)
  moreover have "pub_context_init False [''mqtt_pub'', ''-t'', ''a'', ''-H'', ''-t'', ''b''] io0 =
     Inr (\<lparr>pub_id = None, pub_user = None, pub_password = None,
           pub_host = Some ''localhost'', pub_port = 1883, pub_topic = Some ''a'',
           pub_message = None, pub_retain = False, pub_cmd = PUB_COMMAND_SHOW_HELP,
           pub_exit_code = 0\<rparr>, io0)"
    by (simp add: pub_defs parse_defs getopt_defs const_defs io_defs)
  moreover have "pub_context_init False [''mqtt_pub'', ''-H'', ''-t'', ''a''] io0 =
     Inr (\<lparr>pub_id = None, pub_user = None, pub_password = None,
           pub_host = Some ''localhost'', pub_port = 1883, pub_topic = None,
           pub_message = None, pub_retain = False, pub_cmd = PUB_COMMAND_SHOW_HELP,
           pub_exit_code = 0\<rparr>, io0)"
    by (simp add: pub_defs parse_defs getopt_defs const_defs io_defs)
  moreover have "pub_context_init False [''mqtt_pub'', ''-t'', ''a'', ''-H''] io0 =
     Inr (\<lparr>pub_id = None, pub_user = None, pub_password = None,
           pub_host = Some ''localhost'', pub_port = 1883, pub_topic = Some ''a'',
           pub_message = None, pub_retain = False, pub_cmd = PUB_COMMAND_SHOW_HELP,
           pub_exit_code = 0\<rparr>, io0)"
    by (simp add: pub_defs parse_defs getopt_defs const_defs io_defs)
  ultimately show ?thesis by (intro conjI)
qed

section \<open>Claims about the subscriber's session\<close>

fun is_unsubscribe :: "mosq_call \<Rightarrow> bool" where
  "is_unsubscribe (Mosquitto_unsubscribe t) = True"
| "is_unsubscribe c = False"

definition sub_test_context :: sub_context where
  "sub_test_context =
     \<lparr>sub_id = None, sub_user = None, sub_password = None, sub_host = Some ''localhost'',
      sub_port = 1883, sub_topic = Some ''test'', sub_retain = False, sub_cmd = COMMAND_SUB,
      sub_exit_code = 0\<rparr>"

declare decimal.simps [simp del]

lemma mqtt_on_message_calls: "calls (mqtt_on_message m io) = calls io"
  by (simp add: mqtt_on_message_def print_out_def Let_def)

lemma fold_on_message_calls: "calls (fold mqtt_on_message ms io) = calls io"
  by (induction ms arbitrary: io) (simp_all add: mqtt_on_message_calls)

lemma sub_receive_loop_unsubscribe:
  assumes "sub_receive_loop env i rc io = Some y"
  shows "filter is_unsubscribe (calls (snd y)) = filter is_unsubscribe (calls io)"
proof (rule sub_receive_loop.raw_induct
    [where P = "\<lambda>env i rc io y.
       filter is_unsubscribe (calls (snd y)) = filter is_unsubscribe (calls io)",
     OF _ assms])
  fix loop :: "mosq_env \<Rightarrow> nat \<Rightarrow> int \<Rightarrow> io \<Rightarrow> (int \<times> io) option"
    and env i rc io y
  assume ih: "\<And>env i rc io y. loop env i rc io = Some y \<Longrightarrow>
      filter is_unsubscribe (calls (snd y)) = filter is_unsubscribe (calls io)"
    and body: "(if rc = MOSQ_ERR_SUCCESS \<and> \<not> shutdown_requested env i
      then loop env (Suc i) (loop_rc env i)
            (fold mqtt_on_message (loop_messages env i)
              (call (Mosquitto_loop LOOP_INTERVAL 1) io))
      else Some (rc, io)) = Some y"
  show "filter is_unsubscribe (calls (snd y)) = filter is_unsubscribe (calls io)"
  proof (cases "rc = MOSQ_ERR_SUCCESS \<and> \<not> shutdown_requested env i")
    case True
    with body have "loop env (Suc i) (loop_rc env i)
        (fold mqtt_on_message (loop_messages env i) (call (Mosquitto_loop LOOP_INTERVAL 1) io))
        = Some y"
      by simp
    from ih [OF this] show ?thesis
      by (simp add: fold_on_message_calls call_def)
  next
    case False
    with body show ?thesis by auto
  qed
qed

lemma sub_session_unsubscribe:
  assumes "sub_session env ctx io = Some (Inr (ctx1, io1))"
  shows "filter is_unsubscribe (calls io1) = filter is_unsubscribe (calls io)"
    and "sub_topic ctx1 = sub_topic ctx"
proof -
  define io6 where "io6 =
    call (Mosquitto_subscribe (sub_topic ctx) MQTT_QOS)
      (call (Mosquitto_connect (sub_host ctx) (sub_port ctx) MQTT_KEEPALIVE)
        (call Mosquitto_message_callback_set
          (call (Mosquitto_username_pw_set (sub_user ctx) (sub_password ctx))
            (call (Mosquitto_new (sub_id ctx) True) (call Mosquitto_lib_init io)))))"
  have c6: "filter is_unsubscribe (calls io6) = filter is_unsubscribe (calls io)"
    by (simp add: io6_def call_def)
  from assms obtain rc io7 where
    l: "sub_receive_loop env 0 (subscribe_rc env) io6 = Some (rc, io7)" and
    r: "(ctx1, io1) = (ctx, io7) \<or>
        (ctx1, io1) = (ctx\<lparr>sub_exit_code := EXIT_FAILURE\<rparr>,
            print_err (''error: failed to execute message loop; '' @
                       strerror env (errno_after_loop env)) io7)"
    unfolding sub_session_def Let_def io6_def [symmetric]
    by (auto split: if_splits option.splits)
  from sub_receive_loop_unsubscribe [OF l] c6
  have "filter is_unsubscribe (calls io7) = filter is_unsubscribe (calls io)"
    by simp
  with r show "filter is_unsubscribe (calls io1) = filter is_unsubscribe (calls io)"
    by (auto simp: print_err_def)
  from r show "sub_topic ctx1 = sub_topic ctx"
    by auto
qed

text \<open>
  The receive loop ends once a shutdown request is observed, if not earlier.
\<close>

lemma sub_receive_loop_exits:
  "shutdown_requested env n \<Longrightarrow> i \<le> n \<Longrightarrow> \<exists>y. sub_receive_loop env i rc io = Some y"
proof (induction "n - i" arbitrary: i rc io)
  case 0
  then have "i = n" by simp
  with 0 show ?case
    by (subst sub_receive_loop.simps) simp
next
  case (Suc k)
  then have "k = n - Suc i" and "Suc i \<le> n"
    by simp_all
  from Suc(1) [OF this(1) Suc(3) this(2)] show ?case
    by (subst sub_receive_loop.simps) simp
qed

text \<open>
  C7. When the receive loop has ended (\<open>sub_session\<close> returns \<open>Inr\<close>, with the context
  and the output at that point), \<^verbatim>\<open>mqtt_sub\<close> returns, its exit status is the one it had
  when the loop ended, and the run has made exactly one unsubscribe call more than were
  recorded before it, for the configured topic. The unsubscribe step leaves the exit
  status as it is whatever the call returns (\<open>r\<close>).
\<close>

theorem unsubscribe_once_keeps_exit_status:
  assumes "sub_session env ctx io = Some (Inr (ctx1, io1))"
  shows "(\<exists>ctx2 io2. mqtt_sub env ctx io = Some (ctx2, io2)
            \<and> sub_exit_code ctx2 = sub_exit_code ctx1
            \<and> filter is_unsubscribe (calls io2) =
                filter is_unsubscribe (calls io) @ [Mosquitto_unsubscribe (sub_topic ctx)])
         \<and> sub_exit_code (fst (sub_unsubscribe (env\<lparr>unsubscribe_rc := r\<rparr>) ctx1 io1))
             = sub_exit_code ctx1"
proof -
  note u = sub_session_unsubscribe [OF assms]
  have "mqtt_sub env ctx io =
          Some (ctx1, call Mosquitto_lib_cleanup (call Mosquitto_destroy
                        (snd (sub_unsubscribe env ctx1 io1))))"
    by (simp add: mqtt_sub_def assms sub_unsubscribe_def Let_def)
  moreover have "filter is_unsubscribe
       (calls (call Mosquitto_lib_cleanup (call Mosquitto_destroy
                 (snd (sub_unsubscribe env ctx1 io1)))))
     = filter is_unsubscribe (calls io) @ [Mosquitto_unsubscribe (sub_topic ctx)]"
    using u by (simp add: sub_unsubscribe_def Let_def call_def print_err_def)
  moreover have "sub_exit_code (fst (sub_unsubscribe (env\<lparr>unsubscribe_rc := r\<rparr>) ctx1 io1))
             = sub_exit_code ctx1"
    by (simp add: sub_unsubscribe_def Let_def)
  ultimately show ?thesis by blast
qed

theorem unsubscribe_once_keeps_exit_status_witness:
  "sub_session (broker_ok\<lparr>unsubscribe_rc := 1\<rparr>) sub_test_context io0 =
     Some (Inr (sub_test_context,
       \<lparr>calls = [Mosquitto_lib_init, Mosquitto_new None True,
                 Mosquitto_username_pw_set None None, Mosquitto_message_callback_set,
                 Mosquitto_connect (Some ''localhost'') 1883 60000,
                 Mosquitto_subscribe (Some ''test'') 0,
                 Mosquitto_loop 1000 1, Mosquitto_loop 1000 1],
        stdout = [], stderr = []\<rparr>))
   \<and> mqtt_sub (broker_ok\<lparr>unsubscribe_rc := 1\<rparr>) sub_test_context io0 =
     Some (sub_test_context,
       \<lparr>calls = [Mosquitto_lib_init, Mosquitto_new None True,
                 Mosquitto_username_pw_set None None, Mosquitto_message_callback_set,
                 Mosquitto_connect (Some ''localhost'') 1883 60000,
                 Mosquitto_subscribe (Some ''test'') 0,
                 Mosquitto_loop 1000 1, Mosquitto_loop 1000 1,
                 Mosquitto_unsubscribe (Some ''test''),
                 Mosquitto_destroy, Mosquitto_lib_cleanup],
        stdout = [], stderr = [''warning: failed to unsubscribe'']\<rparr>)
   \<and> sub_exit_code sub_test_context = EXIT_SUCCESS"
proof -
  have h: "sub_session (broker_ok\<lparr>unsubscribe_rc := 1\<rparr>) sub_test_context io0 =
     Some (Inr (sub_test_context,
       \<lparr>calls = [Mosquitto_lib_init, Mosquitto_new None True,
                 Mosquitto_username_pw_set None None, Mosquitto_message_callback_set,
                 Mosquitto_connect (Some ''localhost'') 1883 60000,
                 Mosquitto_subscribe (Some ''test'') 0,
                 Mosquitto_loop 1000 1, Mosquitto_loop 1000 1],
        stdout = [], stderr = []\<rparr>))"
    by (simp add: sub_session_def sub_test_context_def broker_ok_def const_defs io_defs
        sub_receive_loop.simps)
  have m: "mqtt_sub (broker_ok\<lparr>unsubscribe_rc := 1\<rparr>) sub_test_context io0 =
     Some (sub_test_context,
       \<lparr>calls = [Mosquitto_lib_init, Mosquitto_new None True,
                 Mosquitto_username_pw_set None None, Mosquitto_message_callback_set,
                 Mosquitto_connect (Some ''localhost'') 1883 60000,
                 Mosquitto_subscribe (Some ''test'') 0,
                 Mosquitto_loop 1000 1, Mosquitto_loop 1000 1,
                 Mosquitto_unsubscribe (Some ''test''),
                 Mosquitto_destroy, Mosquitto_lib_cleanup],
        stdout = [], stderr = [''warning: failed to unsubscribe'']\<rparr>)"
    unfolding mqtt_sub_def h
    by (simp add: sub_unsubscribe_def sub_test_context_def const_defs io_defs)
  have e: "sub_exit_code sub_test_context = EXIT_SUCCESS"
    by (simp add: sub_test_context_def EXIT_SUCCESS_def)
  from unsubscribe_once_keeps_exit_status [OF h, of 0] h m e show ?thesis
    by simp
qed

text \<open>
  C8, as the code has it. For every message, the callback appends one block of five
  lines to standard output: the message identifier, the topic, the retained flag, the
  payload, and an empty line. The payload is the marker \<^verbatim>\<open><empty>\<close> when the payload
  length is zero (or less); for a positive length \<open>n\<close> it is the first \<open>n\<close> bytes of the
  payload up to, and without, the first NUL byte among them, which is all \<open>n\<close> bytes
  when none of them is NUL.
\<close>

theorem on_message_prints_block:
  "\<exists>p. stdout (mqtt_on_message m io) =
          stdout io @
            [''message id: '' @ printf_d (mid m),
             ''topic     : '' @ topic m,
             ''retained  : '' @ (if retain m then ''yes'' else ''no''),
             ''payload   : '' @ p,
             []]
      \<and> (payloadlen m \<le> 0 \<longrightarrow> p = ''<empty>'')
      \<and> (0 < payloadlen m \<longrightarrow>
           p = takeWhile (\<lambda>c. c \<noteq> CHR 0x00) (take (nat (payloadlen m)) (payload m)))
      \<and> (0 < payloadlen m \<and> CHR 0x00 \<notin> set (take (nat (payloadlen m)) (payload m)) \<longrightarrow>
           p = take (nat (payloadlen m)) (payload m))"
proof (cases "0 < payloadlen m")
  case True
  have "takeWhile (\<lambda>c. c \<noteq> CHR 0x00) (take (nat (payloadlen m)) (payload m))
        = take (nat (payloadlen m)) (payload m)"
    if "CHR 0x00 \<notin> set (take (nat (payloadlen m)) (payload m))"
    using that by (auto simp: takeWhile_eq_all_conv)
  with True show ?thesis
    by (intro exI [of _ "takeWhile (\<lambda>c. c \<noteq> CHR 0x00) (take (nat (payloadlen m)) (payload m))"])
       (simp add: mqtt_on_message_def print_out_def printf_prec_s_def Let_def)
next
  case False
  then show ?thesis
    by (intro exI [of _ "''<empty>''"])
       (simp add: mqtt_on_message_def print_out_def Let_def)
qed

theorem on_message_prints_block_witness:
  "stdout (mqtt_on_message
             \<lparr>mid = 42, topic = ''test'', payload = ''hello'', payloadlen = 5,
              retain = True\<rparr> io0) =
     [''message id: 42'', ''topic     : test'', ''retained  : yes'', ''payload   : hello'', []]
   \<and> stdout (mqtt_on_message
             \<lparr>mid = - 3, topic = ''test'', payload = [], payloadlen = 0,
              retain = False\<rparr> io0) =
     [''message id: -3'', ''topic     : test'', ''retained  : no'', ''payload   : <empty>'', []]"
proof -
  have a: "(0::int) < 5 \<and> CHR 0x00 \<notin> set (take (nat 5) ''hello'')"
    by simp
  have b: "(0::int) \<le> 0"
    by simp
  have d: "printf_d 42 = ''42''" "printf_d (- 3) = ''-3''"
    by code_simp+
  from on_message_prints_block
    [of "\<lparr>mid = 42, topic = ''test'', payload = ''hello'', payloadlen = 5, retain = True\<rparr>" io0]
    on_message_prints_block
    [of "\<lparr>mid = - 3, topic = ''test'', payload = [], payloadlen = 0, retain = False\<rparr>" io0]
    a b d
  show ?thesis
    by (auto simp: io0_def)
qed

text \<open>
  The claim as stated, that a payload of positive length \<open>n\<close> is rendered as its first
  \<open>n\<close> bytes, fails for a payload that holds a NUL byte: \<^verbatim>\<open>%.*s\<close> stops there.
\<close>

theorem payload_with_NUL_is_cut:
  "stdout (mqtt_on_message
             \<lparr>mid = 1, topic = ''test'', payload = [CHR ''a'', CHR 0x00, CHR ''b''],
              payloadlen = 3, retain = False\<rparr> io0) =
     [''message id: 1'', ''topic     : test'', ''retained  : no'', ''payload   : a'', []]
   \<and> take 3 [CHR ''a'', CHR 0x00, CHR ''b''] \<noteq> ''a''"
proof -
  have "printf_d 1 = ''1''"
    by code_simp
  then show ?thesis
    by (simp add: mqtt_on_message_def print_out_def printf_prec_s_def io0_def Let_def)
qed

end
